theory Spec2Isabelle
  imports Main "HOL-Library.AList"
begin

chapter \<open>grammarkdown: the checker, the resolver and the core dictionary\<close>

text \<open>
  A shallow embedding of \<^verbatim>\<open>src/lib/checker.ts\<close> (the classes Checker, Resolver and
  RightHandSideDigest) and of the Dictionary class of the core module. Mutable objects
  are records that every function takes and returns; a JavaScript exception is a value
  of \<open>outcome\<close>; \<open>undefined\<close> is \<open>None\<close>.
\<close>

section \<open>core: Dictionary\<close>

text \<open>
  The two facts of the JavaScript runtime that \<^verbatim>\<open>createEmptyPrototype\<close> tests for.
  Every ECMAScript 5 engine has both.
\<close>

record Runtime =
  hasObjectCreate :: bool
  hasObjectFreeze :: bool

text \<open>
  The object that becomes \<^verbatim>\<open>Dictionary.prototype\<close>: the names of its own enumerable
  properties (their values are all \<open>undefined\<close>), whether it is frozen, and whether its
  own prototype is \<^verbatim>\<open>Object.prototype\<close>.
\<close>

record Prototype =
  enumerable :: "string list"
  frozen :: bool
  inheritsObject :: bool

definition builtinNames :: "string list" where
  "builtinNames = [''constructor'', ''toString'', ''toLocaleString'', ''valueOf'',
     ''hasOwnProperty'', ''isPrototypeOf'', ''propertyIsEnumerable'']"

text \<open>
  \<^verbatim>\<open>Object.freeze(Object.create(null))\<close> where \<^verbatim>\<open>Object.create\<close> exists. Otherwise
  an object literal, on which each of the seven names is found through \<^verbatim>\<open>Object.prototype\<close>
  and therefore overwritten with \<open>undefined\<close>, which makes it an own enumerable property.
\<close>

definition createEmptyPrototype :: "Runtime \<Rightarrow> Prototype" where
  "createEmptyPrototype rt =
     (if hasObjectCreate rt
      then \<lparr>enumerable = [], frozen = True, inheritsObject = False\<rparr>
      else \<lparr>enumerable = builtinNames, frozen = hasObjectFreeze rt, inheritsObject = True\<rparr>)"

text \<open>
  A Dictionary instance: its own properties in creation order, and its prototype.
  Keys are property names; a numeric key is its decimal string.
\<close>

record 'v Dictionary =
  own :: "(string \<times> 'v) list"
  prototype :: Prototype

text \<open>
  The order in which the engines enumerate the own property names of an object (the
  order that ECMAScript 2020 lays down): the names that are array indices, a decimal
  numeral without a leading zero and below \<^verbatim>\<open>2^32 - 1\<close>, ascending, then the other
  names in creation order.
\<close>

definition indexValue :: "string \<Rightarrow> nat" where
  "indexValue s = foldl (\<lambda>n ch. 10 * n + (of_char ch - 48)) 0 s"

definition isArrayIndex :: "string \<Rightarrow> bool" where
  "isArrayIndex s =
     (s \<noteq> [] \<and> list_all (\<lambda>ch. 48 \<le> (of_char ch :: nat) \<and> (of_char ch :: nat) \<le> 57) s
      \<and> (s = ''0'' \<or> hd s \<noteq> CHR ''0'') \<and> indexValue s < 2 ^ 32 - 1)"

definition propertyOrder :: "string list \<Rightarrow> string list" where
  "propertyOrder ks =
     sort_key indexValue (filter isArrayIndex ks) @ filter (\<lambda>k. \<not> isArrayIndex k) ks"

text \<open>
  \<^verbatim>\<open>for (const key in object)\<close>: the own property names, then the enumerable names
  of the prototype that no own property shadows.
\<close>

definition forIn :: "'v Dictionary \<Rightarrow> string list" where
  "forIn d = propertyOrder (map fst (own d))
     @ filter (\<lambda>k. k \<notin> set (map fst (own d))) (propertyOrder (enumerable (prototype d)))"

text \<open>
  \<^verbatim>\<open>object[key] = value\<close>: an own property is overwritten in place; otherwise a
  non-writable inherited property (a property of a frozen prototype) or an inherited
  setter (\<^verbatim>\<open>__proto__\<close> of \<^verbatim>\<open>Object.prototype\<close>) keeps the object from getting an own
  property; otherwise the property is added last. Both exceptions need a prototype
  that \<open>createEmptyPrototype\<close> builds only where \<^verbatim>\<open>Object.create\<close> is missing; there the
  assignment to the non-writable property is taken as one that is ignored, as it is
  outside strict mode (in strict mode it throws a \<^verbatim>\<open>TypeError\<close>).
\<close>

definition assignProperty :: "'v Dictionary \<Rightarrow> string \<Rightarrow> 'v \<Rightarrow> 'v Dictionary" where
  "assignProperty d k v =
     (if k \<in> set (map fst (own d)) then d\<lparr>own := AList.update k v (own d)\<rparr>
      else if (frozen (prototype d) \<and> k \<in> set (enumerable (prototype d)))
              \<or> (inheritsObject (prototype d) \<and> k = ''__proto__'') then d
      else d\<lparr>own := AList.update k v (own d)\<rparr>)"

definition Dictionary_has :: "'v Dictionary \<Rightarrow> string \<Rightarrow> bool" where
  "Dictionary_has object key = (key \<in> set (map fst (own object)))"

definition Dictionary_get :: "'v Dictionary \<Rightarrow> string \<Rightarrow> 'v option" where
  "Dictionary_get object key =
     (if Dictionary_has object key then map_of (own object) key else None)"

definition Dictionary_set :: "'v Dictionary \<Rightarrow> string \<Rightarrow> 'v \<Rightarrow> 'v Dictionary" where
  "Dictionary_set object key v = assignProperty object key v"

definition Dictionary_new :: "Runtime \<Rightarrow> 'v Dictionary option \<Rightarrow> 'v Dictionary" where
  "Dictionary_new rt object =
     (let this = \<lparr>own = [], prototype = createEmptyPrototype rt\<rparr> in
      case object of
        None \<Rightarrow> this
      | Some src \<Rightarrow>
          fold (\<lambda>key this. if Dictionary_has src key
                            then (case map_of (own src) key of
                                    Some v \<Rightarrow> assignProperty this key v | None \<Rightarrow> this)
                            else this)
               (forIn src) this)"

definition Dictionary_keys :: "'v Dictionary \<Rightarrow> string list" where
  "Dictionary_keys dict = filter (Dictionary_has dict) (forIn dict)"

definition Dictionary_values :: "'v Dictionary \<Rightarrow> 'v option list" where
  "Dictionary_values dict =
     map (Dictionary_get dict) (filter (Dictionary_has dict) (forIn dict))"

definition Dictionary_entries :: "'v Dictionary \<Rightarrow> (string \<times> 'v option) list" where
  "Dictionary_entries dict =
     map (\<lambda>key. (key, Dictionary_get dict key)) (filter (Dictionary_has dict) (forIn dict))"

text \<open>The callback is a function on a state of the caller's, here \<open>'s\<close>.\<close>

definition Dictionary_forEach ::
  "'v Dictionary \<Rightarrow> ('v option \<Rightarrow> string \<Rightarrow> 's \<Rightarrow> 's) \<Rightarrow> 's \<Rightarrow> 's" where
  "Dictionary_forEach object callbackfn s =
     fold (\<lambda>key s. if Dictionary_has object key
                   then callbackfn (map_of (own object) key) key s else s)
          (forIn object) s"

text \<open>
  A property key made from a value that may be \<open>undefined\<close>: \<^verbatim>\<open>hasOwnProperty\<close> and
  \<^verbatim>\<open>object[key]\<close> turn \<open>undefined\<close> into the name \<^verbatim>\<open>"undefined"\<close>.
\<close>

definition propertyKey :: "string option \<Rightarrow> string" where
  "propertyKey key = (case key of None \<Rightarrow> ''undefined'' | Some s \<Rightarrow> s)"

section \<open>Tokens and syntax nodes\<close>

text \<open>
  \<^verbatim>\<open>SyntaxKind\<close> is a numeric enumeration of the tokens module. These are its
  members that the checker names, numbered in the order of their groups: the
  punctuation tokens are consecutive, and so are the keywords. Only that the
  numbers differ, and these two ranges, are used.
\<close>

type_synonym SyntaxKind = nat

named_theorems SyntaxKind_defs

definition Unknown :: SyntaxKind where [SyntaxKind_defs]: "Unknown = 0"

definition EndOfFileToken :: SyntaxKind where [SyntaxKind_defs]: "EndOfFileToken = 1"

definition LineTerminatorToken :: SyntaxKind where [SyntaxKind_defs]: "LineTerminatorToken = 2"

definition IndentToken :: SyntaxKind where [SyntaxKind_defs]: "IndentToken = 3"

definition DedentToken :: SyntaxKind where [SyntaxKind_defs]: "DedentToken = 4"

definition Identifier :: SyntaxKind where [SyntaxKind_defs]: "Identifier = 5"

definition Terminal :: SyntaxKind where [SyntaxKind_defs]: "Terminal = 6"

definition UnicodeCharacterLiteral :: SyntaxKind where [SyntaxKind_defs]: "UnicodeCharacterLiteral = 7"

definition StringLiteral :: SyntaxKind where [SyntaxKind_defs]: "StringLiteral = 8"

definition ProseFull :: SyntaxKind where [SyntaxKind_defs]: "ProseFull = 9"

definition ProseHead :: SyntaxKind where [SyntaxKind_defs]: "ProseHead = 10"

definition ProseMiddle :: SyntaxKind where [SyntaxKind_defs]: "ProseMiddle = 11"

definition ProseTail :: SyntaxKind where [SyntaxKind_defs]: "ProseTail = 12"

definition AtToken :: SyntaxKind where [SyntaxKind_defs]: "AtToken = 13"

definition OpenBraceToken :: SyntaxKind where [SyntaxKind_defs]: "OpenBraceToken = 14"

definition CloseBraceToken :: SyntaxKind where [SyntaxKind_defs]: "CloseBraceToken = 15"

definition OpenBracketToken :: SyntaxKind where [SyntaxKind_defs]: "OpenBracketToken = 16"

definition OpenBracketGreaterThanToken :: SyntaxKind where [SyntaxKind_defs]: "OpenBracketGreaterThanToken = 17"

definition CloseBracketToken :: SyntaxKind where [SyntaxKind_defs]: "CloseBracketToken = 18"

definition OpenParenToken :: SyntaxKind where [SyntaxKind_defs]: "OpenParenToken = 19"

definition CloseParenToken :: SyntaxKind where [SyntaxKind_defs]: "CloseParenToken = 20"

definition ColonToken :: SyntaxKind where [SyntaxKind_defs]: "ColonToken = 21"

definition CommaToken :: SyntaxKind where [SyntaxKind_defs]: "CommaToken = 22"

definition PlusToken :: SyntaxKind where [SyntaxKind_defs]: "PlusToken = 23"

definition TildeToken :: SyntaxKind where [SyntaxKind_defs]: "TildeToken = 24"

definition QuestionToken :: SyntaxKind where [SyntaxKind_defs]: "QuestionToken = 25"

definition EqualsEqualsToken :: SyntaxKind where [SyntaxKind_defs]: "EqualsEqualsToken = 26"

definition ExclamationEqualsToken :: SyntaxKind where [SyntaxKind_defs]: "ExclamationEqualsToken = 27"

definition LessThanExclamationToken :: SyntaxKind where [SyntaxKind_defs]: "LessThanExclamationToken = 28"

definition LessThanMinusToken :: SyntaxKind where [SyntaxKind_defs]: "LessThanMinusToken = 29"

definition ButKeyword :: SyntaxKind where [SyntaxKind_defs]: "ButKeyword = 30"

definition DefineKeyword :: SyntaxKind where [SyntaxKind_defs]: "DefineKeyword = 31"

definition EmptyKeyword :: SyntaxKind where [SyntaxKind_defs]: "EmptyKeyword = 32"

definition FalseKeyword :: SyntaxKind where [SyntaxKind_defs]: "FalseKeyword = 33"

definition GoalKeyword :: SyntaxKind where [SyntaxKind_defs]: "GoalKeyword = 34"

definition HereKeyword :: SyntaxKind where [SyntaxKind_defs]: "HereKeyword = 35"

definition ImportKeyword :: SyntaxKind where [SyntaxKind_defs]: "ImportKeyword = 36"

definition LexicalKeyword :: SyntaxKind where [SyntaxKind_defs]: "LexicalKeyword = 37"

definition LookaheadKeyword :: SyntaxKind where [SyntaxKind_defs]: "LookaheadKeyword = 38"

definition NoKeyword :: SyntaxKind where [SyntaxKind_defs]: "NoKeyword = 39"

definition NotKeyword :: SyntaxKind where [SyntaxKind_defs]: "NotKeyword = 40"

definition OfKeyword :: SyntaxKind where [SyntaxKind_defs]: "OfKeyword = 41"

definition OneKeyword :: SyntaxKind where [SyntaxKind_defs]: "OneKeyword = 42"

definition OrKeyword :: SyntaxKind where [SyntaxKind_defs]: "OrKeyword = 43"

definition ThroughKeyword :: SyntaxKind where [SyntaxKind_defs]: "ThroughKeyword = 44"

definition TrueKeyword :: SyntaxKind where [SyntaxKind_defs]: "TrueKeyword = 45"

definition SourceFile :: SyntaxKind where [SyntaxKind_defs]: "SourceFile = 46"

definition Production :: SyntaxKind where [SyntaxKind_defs]: "Production = 47"

definition Define :: SyntaxKind where [SyntaxKind_defs]: "Define = 48"

definition Import :: SyntaxKind where [SyntaxKind_defs]: "Import = 49"

definition InvalidSourceElement :: SyntaxKind where [SyntaxKind_defs]: "InvalidSourceElement = 50"

definition Parameter :: SyntaxKind where [SyntaxKind_defs]: "Parameter = 51"

definition ParameterList :: SyntaxKind where [SyntaxKind_defs]: "ParameterList = 52"

definition Argument :: SyntaxKind where [SyntaxKind_defs]: "Argument = 53"

definition ArgumentList :: SyntaxKind where [SyntaxKind_defs]: "ArgumentList = 54"

definition Nonterminal :: SyntaxKind where [SyntaxKind_defs]: "Nonterminal = 55"

definition OneOfList :: SyntaxKind where [SyntaxKind_defs]: "OneOfList = 56"

definition RightHandSideList :: SyntaxKind where [SyntaxKind_defs]: "RightHandSideList = 57"

definition RightHandSide :: SyntaxKind where [SyntaxKind_defs]: "RightHandSide = 58"

definition LinkReference :: SyntaxKind where [SyntaxKind_defs]: "LinkReference = 59"

definition SymbolSpan :: SyntaxKind where [SyntaxKind_defs]: "SymbolSpan = 60"

definition SymbolSet :: SyntaxKind where [SyntaxKind_defs]: "SymbolSet = 61"

definition Prose :: SyntaxKind where [SyntaxKind_defs]: "Prose = 62"

definition UnicodeCharacterRange :: SyntaxKind where [SyntaxKind_defs]: "UnicodeCharacterRange = 63"

definition ButNotSymbol :: SyntaxKind where [SyntaxKind_defs]: "ButNotSymbol = 64"

definition OneOfSymbol :: SyntaxKind where [SyntaxKind_defs]: "OneOfSymbol = 65"

definition EmptyAssertion :: SyntaxKind where [SyntaxKind_defs]: "EmptyAssertion = 66"

definition LookaheadAssertion :: SyntaxKind where [SyntaxKind_defs]: "LookaheadAssertion = 67"

definition LexicalGoalAssertion :: SyntaxKind where [SyntaxKind_defs]: "LexicalGoalAssertion = 68"

definition NoSymbolHereAssertion :: SyntaxKind where [SyntaxKind_defs]: "NoSymbolHereAssertion = 69"

definition ParameterValueAssertion :: SyntaxKind where [SyntaxKind_defs]: "ParameterValueAssertion = 70"

definition ProseAssertion :: SyntaxKind where [SyntaxKind_defs]: "ProseAssertion = 71"

definition InvalidAssertion :: SyntaxKind where [SyntaxKind_defs]: "InvalidAssertion = 72"

definition InvalidSymbol :: SyntaxKind where [SyntaxKind_defs]: "InvalidSymbol = 73"

definition FirstPunctuation :: SyntaxKind where [SyntaxKind_defs]: "FirstPunctuation = AtToken"

definition LastPunctuation :: SyntaxKind where [SyntaxKind_defs]: "LastPunctuation = LessThanMinusToken"

definition FirstKeyword :: SyntaxKind where [SyntaxKind_defs]: "FirstKeyword = ButKeyword"

definition LastKeyword :: SyntaxKind where [SyntaxKind_defs]: "LastKeyword = TrueKeyword"

text \<open>Every node has an identity and a source range; \<open>endPos\<close> is the field \<^verbatim>\<open>end\<close>.\<close>

record Node =
  nodeId :: nat
  pos :: nat
  endPos :: nat

record Token = Node +
  kind :: SyntaxKind

record Identifier = Node +
  identifierText :: "string option"

record Terminal = Node +
  terminalText :: "string option"
  terminalQuestionToken :: "Token option"

record UnicodeCharacterLiteral = Node +
  literalText :: "string option"
  literalQuestionToken :: "Token option"

record UnicodeCharacterRange = Node +
  rangeLeft :: "UnicodeCharacterLiteral option"
  throughKeyword :: "Token option"
  rangeRight :: "UnicodeCharacterLiteral option"

record Argument = Node +
  argumentOperatorToken :: "Token option"
  argumentName :: Identifier

record ArgumentList = Node +
  argumentsOpenParenToken :: "Token option"
  argumentsElements :: "Argument list option"
  argumentsCloseParenToken :: "Token option"

record Nonterminal = Node +
  nonterminalName :: Identifier
  argumentList :: "ArgumentList option"
  nonterminalQuestionToken :: "Token option"

record ProseFragmentLiteral = Node +
  fragmentKind :: SyntaxKind
  fragmentText :: "string option"

record LinkReference = Node +
  referenceText :: "string option"

text \<open>The brackets every assertion has.\<close>

record Assertion = Node +
  openBracketToken :: "Token option"
  closeBracketToken :: "Token option"

text \<open>
  The nodes below an alternative. The source holds them as \<^verbatim>\<open>Node\<close> and tells them
  apart by \<^verbatim>\<open>kind\<close>; a field the checker tests before it reads it is an option.
  \<^item> ButNotSymbol: butKeyword, notKeyword, left, right.
  \<^item> OneOfSymbol: oneKeyword, ofKeyword, symbols.
  \<^item> EmptyAssertion: emptyKeyword.
  \<^item> LookaheadAssertion: lookaheadKeyword, operatorToken, lookahead.
  \<^item> LexicalGoalAssertion: lexicalKeyword, goalKeyword, symbol.
  \<^item> NoSymbolHereAssertion: noKeyword, symbols, hereKeyword.
  \<^item> ParameterValueAssertion: operatorToken, name.
  \<^item> ProseAssertion: fragments.
  \<^item> SymbolSpan: symbol, next.
  \<^item> SymbolSet: openBraceToken, elements, closeBraceToken.
\<close>

datatype SyntaxNode =
    TerminalNode Terminal
  | UnicodeCharacterLiteralNode UnicodeCharacterLiteral
  | UnicodeCharacterRangeNode UnicodeCharacterRange
  | NonterminalNode Nonterminal
  | IdentifierNode Identifier
  | TokenNode Token
  | ProseFragmentLiteralNode ProseFragmentLiteral
  | ProseNode Node "SyntaxNode list"
  | ButNotSymbolNode Node "Token option" "Token option" "SyntaxNode option" "SyntaxNode option"
  | OneOfSymbolNode Node "Token option" "Token option" "SyntaxNode list option"
  | EmptyAssertionNode Assertion "Token option"
  | LookaheadAssertionNode Assertion "Token option" "Token option" "SyntaxNode option"
  | LexicalGoalAssertionNode Assertion "Token option" "Token option" "Identifier option"
  | NoSymbolHereAssertionNode Assertion "Token option" "SyntaxNode list option" "Token option"
  | ParameterValueAssertionNode Assertion "Token option" "Identifier option"
  | ProseAssertionNode Assertion "SyntaxNode list"
  | InvalidAssertionNode Assertion
  | InvalidSymbolNode Node
  | SymbolSpanNode Node "SyntaxNode option" "SyntaxNode option"
  | SymbolSetNode Node "Token option" "SyntaxNode list option" "Token option"

fun kindOf :: "SyntaxNode \<Rightarrow> SyntaxKind" where
  "kindOf (TerminalNode n) = Terminal"
| "kindOf (UnicodeCharacterLiteralNode n) = UnicodeCharacterLiteral"
| "kindOf (UnicodeCharacterRangeNode n) = UnicodeCharacterRange"
| "kindOf (NonterminalNode n) = Nonterminal"
| "kindOf (IdentifierNode n) = Identifier"
| "kindOf (TokenNode t) = kind t"
| "kindOf (ProseFragmentLiteralNode n) = fragmentKind n"
| "kindOf (ProseNode n fragments) = Prose"
| "kindOf (ButNotSymbolNode n butKeyword notKeyword left right) = ButNotSymbol"
| "kindOf (OneOfSymbolNode n oneKeyword ofKeyword symbols) = OneOfSymbol"
| "kindOf (EmptyAssertionNode a emptyKeyword) = EmptyAssertion"
| "kindOf (LookaheadAssertionNode a lookaheadKeyword operatorToken lookahead) = LookaheadAssertion"
| "kindOf (LexicalGoalAssertionNode a lexicalKeyword goalKeyword symbol) = LexicalGoalAssertion"
| "kindOf (NoSymbolHereAssertionNode a noKeyword symbols hereKeyword) = NoSymbolHereAssertion"
| "kindOf (ParameterValueAssertionNode a operatorToken name) = ParameterValueAssertion"
| "kindOf (ProseAssertionNode a fragments) = ProseAssertion"
| "kindOf (InvalidAssertionNode a) = InvalidAssertion"
| "kindOf (InvalidSymbolNode n) = InvalidSymbol"
| "kindOf (SymbolSpanNode n symbol next) = SymbolSpan"
| "kindOf (SymbolSetNode n openBraceToken elements closeBraceToken) = SymbolSet"

record RightHandSide = Node +
  head :: SyntaxNode
  reference :: "LinkReference option"

record RightHandSideList = Node +
  listOpenIndentToken :: "Token option"
  listElements :: "RightHandSide list option"
  listCloseIndentToken :: "Token option"

record OneOfList = Node +
  oneKeyword :: "Token option"
  ofKeyword :: "Token option"
  openIndentToken :: "Token option"
  terminals :: "Terminal list option"
  closeIndentToken :: "Token option"

text \<open>The field \<^verbatim>\<open>body\<close> of a production, by its kind.\<close>

datatype ProductionBody =
    OneOfListBody OneOfList
  | RightHandSideListBody RightHandSideList
  | RightHandSideBody RightHandSide
  | OtherBody SyntaxKind

record Parameter = Node +
  parameterName :: Identifier

record ParameterList = Node +
  openParenToken :: "Token option"
  parameterElements :: "Parameter list option"
  closeParenToken :: "Token option"

record Production = Node +
  productionName :: Identifier
  parameterList :: "ParameterList option"
  colonToken :: "Token option"
  body :: "ProductionBody option"

record Define = Node +
  defineKeyword :: Token
  key :: "Identifier option"
  valueToken :: "Token option"

datatype SourceElement =
    ProductionElement Production
  | DefineElement Define
  | InvalidElement Node
  | OtherElement SyntaxKind

record SourceFile = Node +
  filename :: string
  elements :: "SourceElement list"

section \<open>Symbols, the binding table and the diagnostic sink\<close>

datatype SymbolKind = ProductionKind | ParameterKind

record Symbol =
  symbolId :: nat
  symbolName :: string
  symbolKind :: SymbolKind

text \<open>
  A node as the binding table hands it back: the kinds whose fields the checker
  reads after \<^verbatim>\<open>getParent\<close>, \<^verbatim>\<open>getAncestor\<close> or \<^verbatim>\<open>getDeclarations\<close> carry the
  node; any other node is its kind and its id.
\<close>

datatype NodeRef =
    ProductionRef Production
  | ParameterRef Parameter
  | NonterminalRef Nonterminal
  | ArgumentRef Argument
  | IdentifierRef Identifier
  | OtherRef SyntaxKind nat

fun refKind :: "NodeRef \<Rightarrow> SyntaxKind" where
  "refKind (ProductionRef n) = Production"
| "refKind (ParameterRef n) = Parameter"
| "refKind (NonterminalRef n) = Nonterminal"
| "refKind (ArgumentRef n) = Argument"
| "refKind (IdentifierRef n) = Identifier"
| "refKind (OtherRef k i) = k"

fun refId :: "NodeRef \<Rightarrow> nat" where
  "refId (ProductionRef n) = nodeId n"
| "refId (ParameterRef n) = nodeId n"
| "refId (NonterminalRef n) = nodeId n"
| "refId (ArgumentRef n) = nodeId n"
| "refId (IdentifierRef n) = nodeId n"
| "refId (OtherRef k i) = i"

text \<open>
  Modelled from the spec: the class BindingTable of the binder module, which is not
  among the sources. The spec gives it a parent map (node to immediate parent), a
  symbol map (node to symbol), the global scope (name to production symbol), one
  parameter scope per production symbol (name to parameter symbol) and, per symbol, its
  declarations in discovery order. \<open>parentChain\<close> is the parent map followed from a node
  to the root: the node's strict ancestors, nearest first. Nodes are keyed by their id,
  symbols by theirs.
\<close>

record BindingTable =
  parentChain :: "nat \<Rightarrow> NodeRef list"
  symbolMap :: "nat \<Rightarrow> Symbol option"
  globalScope :: "string \<Rightarrow> Symbol option"
  parameterScope :: "nat \<Rightarrow> string \<Rightarrow> Symbol option"
  declarationMap :: "nat \<Rightarrow> Production list"

text \<open>Modelled from the spec: \<^verbatim>\<open>getParent\<close>, \<open>undefined\<close> only for the root.\<close>

definition getParent :: "BindingTable \<Rightarrow> nat \<Rightarrow> NodeRef option" where
  "getParent bt node = (case parentChain bt node of [] \<Rightarrow> None | parent # _ \<Rightarrow> Some parent)"

text \<open>Modelled from the spec: \<^verbatim>\<open>getAncestor\<close>, the nearest strict ancestor of a kind.\<close>

definition getAncestor :: "BindingTable \<Rightarrow> nat \<Rightarrow> SyntaxKind \<Rightarrow> NodeRef option" where
  "getAncestor bt node wanted = find (\<lambda>a. refKind a = wanted) (parentChain bt node)"

text \<open>Modelled from the spec: \<^verbatim>\<open>getSymbol\<close> looks up and does not resolve.\<close>

definition getSymbol :: "BindingTable \<Rightarrow> nat \<Rightarrow> Symbol option" where
  "getSymbol bt node = symbolMap bt node"

text \<open>Modelled from the spec: \<^verbatim>\<open>setSymbol\<close>, last write wins.\<close>

definition setSymbol :: "BindingTable \<Rightarrow> nat \<Rightarrow> Symbol option \<Rightarrow> BindingTable" where
  "setSymbol bt node symbol = bt\<lparr>symbolMap := (symbolMap bt)(node := symbol)\<rparr>"

text \<open>
  Modelled from the spec: \<^verbatim>\<open>resolveSymbol\<close>. A production name is searched in the
  global scope. A parameter name is searched in the parameter scope of the production
  enclosing the location (the location itself when it is a production, as the checker
  calls it), and is not found when there is none. No symbol is ever created.
\<close>

definition enclosingProduction :: "BindingTable \<Rightarrow> NodeRef \<Rightarrow> Production option" where
  "enclosingProduction bt location =
     (case location of
        ProductionRef p \<Rightarrow> Some p
      | _ \<Rightarrow> (case getAncestor bt (refId location) Production of
                Some (ProductionRef p) \<Rightarrow> Some p
              | _ \<Rightarrow> None))"

definition bindings_resolveSymbol ::
  "BindingTable \<Rightarrow> NodeRef option \<Rightarrow> string option \<Rightarrow> SymbolKind \<Rightarrow> Symbol option" where
  "bindings_resolveSymbol bt location name meaning =
     (case meaning of
        ProductionKind \<Rightarrow> globalScope bt (propertyKey name)
      | ParameterKind \<Rightarrow>
          (case location of
             None \<Rightarrow> None
           | Some l \<Rightarrow>
              (case enclosingProduction bt l of
                 None \<Rightarrow> None
               | Some p \<Rightarrow>
                  (case getSymbol bt (nodeId p) of
                     None \<Rightarrow> None
                   | Some s \<Rightarrow> parameterScope bt (symbolId s) (propertyKey name)))))"

text \<open>Modelled from the spec: \<^verbatim>\<open>getDeclarations\<close>, in discovery order.\<close>

definition getDeclarations :: "BindingTable \<Rightarrow> Symbol option \<Rightarrow> Production list" where
  "getDeclarations bt symbol =
     (case symbol of None \<Rightarrow> [] | Some s \<Rightarrow> declarationMap bt (symbolId s))"

text \<open>The message templates of the diagnostics module that the checker reports.\<close>

datatype Diagnostic =
    Cannot_find_name_0
  | X0_expected
  | Production_0_is_missing_parameter_1_All_definitions_of_production_0_must_specify_the_same_formal_parameters
  | Duplicate_terminal_0
  | Obsolete_0
  | Unexpected_token_0
  | Argument_0_cannot_be_specified_multiple_times
  | Production_0_does_not_have_a_parameter_named_1
  | There_is_no_argument_given_for_parameter_0
  | Duplicate_identifier_0

text \<open>
  An argument of a message: a text of the grammar (which may be \<open>undefined\<close>), the
  result of \<^verbatim>\<open>tokenToString\<close> on a kind (with its flag \<^verbatim>\<open>quoted\<close>), the result of
  \<^verbatim>\<open>formatList\<close> on kinds, or a string of the checker's own.
\<close>

datatype DiagnosticArgument =
    TextArgument "string option"
  | TokenArgument SyntaxKind bool
  | ListArgument "SyntaxKind list"
  | StringArgument string

datatype DiagnosticLocation = AtPosition nat | AtNode nat

record DiagnosticEntry =
  entryFile :: "string option"
  entryLocation :: DiagnosticLocation
  entryMessage :: Diagnostic
  entryArguments :: "DiagnosticArgument list"

text \<open>
  Modelled from the spec: the class DiagnosticMessages of the diagnostics module, an
  append-only sink of structured records (a position or a node, a message template,
  the arguments), in order of emission and without deduplication. A record belongs to
  the source file set last.
\<close>

record DiagnosticMessages =
  currentFile :: "string option"
  entries :: "DiagnosticEntry list"

definition setSourceFile :: "DiagnosticMessages \<Rightarrow> SourceFile \<Rightarrow> DiagnosticMessages" where
  "setSourceFile d f = d\<lparr>currentFile := Some (filename f)\<rparr>"

definition report ::
  "DiagnosticMessages \<Rightarrow> nat \<Rightarrow> Diagnostic \<Rightarrow> DiagnosticArgument list \<Rightarrow> DiagnosticMessages" where
  "report d p m args =
     d\<lparr>entries := entries d @
        [\<lparr>entryFile = currentFile d, entryLocation = AtPosition p, entryMessage = m, entryArguments = args\<rparr>]\<rparr>"

definition reportNode ::
  "DiagnosticMessages \<Rightarrow> nat \<Rightarrow> Diagnostic \<Rightarrow> DiagnosticArgument list \<Rightarrow> DiagnosticMessages" where
  "reportNode d node m args =
     d\<lparr>entries := entries d @
        [\<lparr>entryFile = currentFile d, entryLocation = AtNode node, entryMessage = m, entryArguments = args\<rparr>]\<rparr>"

section \<open>The checker\<close>

text \<open>
  The fields of the class Checker. \<open>checkedFileSet\<close>, the memo
  \<open>productionParametersByName\<close> and its values are Dictionary objects, read with
  \<^verbatim>\<open>Dictionary.has\<close> and \<^verbatim>\<open>Dictionary.get\<close> and written with \<^verbatim>\<open>Dictionary.set\<close>;
  they are maps here, the memo from node ids. The memo and \<open>sourceFile\<close> are
  \<open>undefined\<close> outside \<open>checkSourceFile\<close>. \<open>cancellationRequested\<close> is what the
  cancellation token answers when it is asked.
\<close>

record Checker =
  checkedFileSet :: "string \<Rightarrow> bool option"
  bindings :: BindingTable
  diagnostics :: DiagnosticMessages
  sourceFile :: "SourceFile option"
  noStrictParametricProductions :: bool
  productionParametersByName :: "(nat \<Rightarrow> (string \<Rightarrow> bool option) option) option"
  cancellationRequested :: bool

text \<open>
  What a call does: it returns a value, or it throws; either way the checker object is
  left in some state. \<open>TypeError\<close> is what JavaScript throws when a property of
  \<open>undefined\<close> is read.
\<close>

datatype error = OperationCanceled | TypeError

datatype 'a outcome = Returned 'a Checker | Thrown error Checker

fun andThen :: "'a outcome \<Rightarrow> ('a \<Rightarrow> Checker \<Rightarrow> 'b outcome) \<Rightarrow> 'b outcome" where
  "andThen (Returned x c) f = f x c"
| "andThen (Thrown e c) f = Thrown e c"

text \<open>A \<^verbatim>\<open>for ... of\<close> loop whose body may throw.\<close>

fun forEachOf :: "(Checker \<Rightarrow> 'a \<Rightarrow> unit outcome) \<Rightarrow> 'a list \<Rightarrow> Checker \<Rightarrow> unit outcome" where
  "forEachOf f [] c = Returned () c"
| "forEachOf f (x # xs) c =
     (case f c x of Returned u c' \<Rightarrow> forEachOf f xs c' | Thrown e c' \<Rightarrow> Thrown e c')"

fun stateOf :: "'a outcome \<Rightarrow> Checker" where
  "stateOf (Returned x c) = c"
| "stateOf (Thrown e c) = c"

text \<open>A JavaScript condition on a string that may be \<open>undefined\<close>: neither that nor empty.\<close>

definition truthy :: "string option \<Rightarrow> bool" where
  "truthy s = (case s of None \<Rightarrow> False | Some t \<Rightarrow> t \<noteq> [])"

definition reportGrammarError ::
  "Checker \<Rightarrow> nat \<Rightarrow> Diagnostic \<Rightarrow> DiagnosticArgument list \<Rightarrow> bool \<times> Checker" where
  "reportGrammarError c p diagnosticMessage args =
     (True, c\<lparr>diagnostics := report (diagnostics c) p diagnosticMessage args\<rparr>)"

definition reportGrammarErrorForNode ::
  "Checker \<Rightarrow> nat \<Rightarrow> Diagnostic \<Rightarrow> DiagnosticArgument list \<Rightarrow> bool \<times> Checker" where
  "reportGrammarErrorForNode c node diagnosticMessage args =
     (True, c\<lparr>diagnostics := reportNode (diagnostics c) node diagnosticMessage args\<rparr>)"

text \<open>\<^verbatim>\<open>this.diagnostics.reportNode(...)\<close>.\<close>

definition diagnostics_reportNode ::
  "Checker \<Rightarrow> nat \<Rightarrow> Diagnostic \<Rightarrow> DiagnosticArgument list \<Rightarrow> Checker" where
  "diagnostics_reportNode c node diagnosticMessage args =
     c\<lparr>diagnostics := reportNode (diagnostics c) node diagnosticMessage args\<rparr>"

subsection \<open>Productions: the shape check\<close>

definition bodyKind :: "ProductionBody \<Rightarrow> SyntaxKind" where
  "bodyKind b = (case b of OneOfListBody l \<Rightarrow> OneOfList
                 | RightHandSideListBody l \<Rightarrow> RightHandSideList
                 | RightHandSideBody r \<Rightarrow> RightHandSide
                 | OtherBody k \<Rightarrow> k)"

definition checkGrammarProduction :: "Checker \<Rightarrow> Production \<Rightarrow> bool \<times> Checker" where
  "checkGrammarProduction c node =
     (let p = endPos (productionName node);
          p = (case parameterList node of Some l \<Rightarrow> endPos l | None \<Rightarrow> p)
      in case colonToken node of
           None \<Rightarrow> reportGrammarError c p X0_expected [TokenArgument ColonToken False]
         | Some colon \<Rightarrow>
            (let p = p + endPos colon
             in case body node of
                  None \<Rightarrow> reportGrammarError c p X0_expected [ListArgument [OneOfList, RightHandSide]]
                | Some b \<Rightarrow>
                    if bodyKind b = OneOfList \<or> bodyKind b = RightHandSide
                         \<or> bodyKind b = RightHandSideList
                    then (False, c)
                    else reportGrammarError c p X0_expected
                           [ListArgument [OneOfList, RightHandSide]]))"

subsection \<open>Terminals and one-of lists\<close>

text \<open>
  The parameter \<^verbatim>\<open>allowOptional\<close> is a boolean or \<open>undefined\<close>; only its truth is
  tested, so \<open>undefined\<close> is \<open>False\<close>.
\<close>

definition checkGrammarOptionalSymbol :: "Checker \<Rightarrow> Token option \<Rightarrow> bool \<Rightarrow> bool \<times> Checker" where
  "checkGrammarOptionalSymbol c questionToken allowOptional =
     (case questionToken of
        Some q \<Rightarrow>
          if \<not> allowOptional \<or> kind q \<noteq> QuestionToken
          then reportGrammarErrorForNode c (nodeId q) Unexpected_token_0 [TokenArgument (kind q) False]
          else (False, c)
      | None \<Rightarrow> (False, c))"

definition checkGrammarTerminal :: "Checker \<Rightarrow> Terminal \<Rightarrow> bool \<times> Checker" where
  "checkGrammarTerminal c node =
     (if \<not> truthy (terminalText node)
      then reportGrammarErrorForNode c (nodeId node) X0_expected [TokenArgument Terminal False]
      else (False, c))"

definition checkTerminal :: "Checker \<Rightarrow> Terminal \<Rightarrow> bool \<Rightarrow> Checker" where
  "checkTerminal c node allowOptional =
     (case checkGrammarOptionalSymbol c (terminalQuestionToken node) allowOptional of
        (True, c') \<Rightarrow> c'
      | (False, c') \<Rightarrow> snd (checkGrammarTerminal c' node))"

definition checkGrammarOneOfList :: "Checker \<Rightarrow> OneOfList \<Rightarrow> bool \<times> Checker" where
  "checkGrammarOneOfList c node =
     (case oneKeyword node of
        None \<Rightarrow> reportGrammarError c (pos node) X0_expected [TokenArgument OneKeyword False]
      | Some one \<Rightarrow>
         (case ofKeyword node of
            None \<Rightarrow> reportGrammarError c (endPos one) X0_expected [TokenArgument OfKeyword False]
          | Some ofToken \<Rightarrow>
             (if terminals node = None
              then reportGrammarError c (endPos ofToken) X0_expected [TokenArgument Terminal False]
              else if openIndentToken node \<noteq> None \<and> closeIndentToken node = None
              then reportGrammarError c (endPos node) X0_expected [TokenArgument DedentToken False]
              else (False, c))))"

text \<open>The loop of \<open>checkOneOfList\<close>, with its local \<^verbatim>\<open>terminalSet\<close>.\<close>

fun checkOneOfList_loop ::
  "Checker \<Rightarrow> (string \<Rightarrow> bool option) \<Rightarrow> Terminal list \<Rightarrow> Checker" where
  "checkOneOfList_loop c terminalSet [] = c"
| "checkOneOfList_loop c terminalSet (terminal # rest) =
     (if terminalSet (propertyKey (terminalText terminal)) \<noteq> None
      then checkOneOfList_loop
             (diagnostics_reportNode c (nodeId terminal) Duplicate_terminal_0
                [TextArgument (terminalText terminal)])
             terminalSet rest
      else checkOneOfList_loop
             (checkTerminal c terminal False)
             (terminalSet(propertyKey (terminalText terminal) \<mapsto> True)) rest)"

definition checkOneOfList :: "Checker \<Rightarrow> OneOfList \<Rightarrow> Checker" where
  "checkOneOfList c node =
     (let c = snd (checkGrammarOneOfList c node)
      in case terminals node of
           Some ts \<Rightarrow> checkOneOfList_loop c Map.empty ts
         | None \<Rightarrow> c)"

subsection \<open>Identifiers\<close>

definition checkGrammarIdentifier :: "Checker \<Rightarrow> Identifier \<Rightarrow> bool \<times> Checker" where
  "checkGrammarIdentifier c node =
     (if \<not> truthy (identifierText node)
      then reportGrammarErrorForNode c (nodeId node) X0_expected [TokenArgument Identifier False]
      else (False, c))"

text \<open>The method \<^verbatim>\<open>resolveSymbol\<close> of the checker, which reports a miss when given a message.\<close>

definition resolveSymbol ::
  "Checker \<Rightarrow> NodeRef option \<Rightarrow> string option \<Rightarrow> SymbolKind \<Rightarrow> Diagnostic option
     \<Rightarrow> Symbol option \<times> Checker" where
  "resolveSymbol c location name meaning diagnosticMessage =
     (let result = bindings_resolveSymbol (bindings c) location name meaning
      in case (result, diagnosticMessage, location) of
           (None, Some m, Some l) \<Rightarrow> (result, diagnostics_reportNode c (refId l) m [TextArgument name])
         | _ \<Rightarrow> (result, c))"

text \<open>The last two statements of \<open>checkIdentifier\<close>, which every case but two reaches.\<close>

definition cacheSymbol :: "Checker \<Rightarrow> Identifier \<Rightarrow> Symbol option \<Rightarrow> (Symbol option) outcome" where
  "cacheSymbol c node symbol =
     Returned symbol (c\<lparr>bindings := setSymbol (bindings c) (nodeId node) symbol\<rparr>)"

text \<open>
  The case of an identifier whose parent is an argument. Reading \<^verbatim>\<open>production.name\<close>
  throws when the table has no enclosing production, or no declaration for the symbol.
\<close>

definition checkIdentifier_argument ::
  "Checker \<Rightarrow> Identifier \<Rightarrow> Argument \<Rightarrow> (Symbol option) outcome" where
  "checkIdentifier_argument c node argument =
     (if (case argumentOperatorToken argument of Some t \<Rightarrow> kind t = QuestionToken | None \<Rightarrow> False)
      then
        (case resolveSymbol c (Some (IdentifierRef node)) (identifierText node) ParameterKind None of
           (Some symbol, c) \<Rightarrow> cacheSymbol c node (Some symbol)
         | (None, c) \<Rightarrow>
            (case getAncestor (bindings c) (nodeId argument) Production of
               Some (ProductionRef production) \<Rightarrow>
                 cacheSymbol
                   (diagnostics_reportNode c (nodeId node)
                      Production_0_does_not_have_a_parameter_named_1
                      [TextArgument (identifierText (productionName production)),
                       TextArgument (identifierText node)])
                   node None
             | _ \<Rightarrow> Thrown TypeError c))
      else
        (case getAncestor (bindings c) (nodeId argument) Nonterminal of
           Some (NonterminalRef nonterminal) \<Rightarrow>
             if truthy (identifierText (nonterminalName nonterminal))
             then
               (case resolveSymbol c (Some (IdentifierRef node))
                       (identifierText (nonterminalName nonterminal)) ProductionKind None of
                  (None, c) \<Rightarrow> cacheSymbol c node None
                | (Some productionSymbol, c) \<Rightarrow>
                   (case getDeclarations (bindings c) (Some productionSymbol) of
                      [] \<Rightarrow>
                        (case resolveSymbol c None (identifierText node) ParameterKind None of
                           (Some symbol, c) \<Rightarrow> cacheSymbol c node (Some symbol)
                         | (None, c) \<Rightarrow> Thrown TypeError c)
                    | production # _ \<Rightarrow>
                        (case resolveSymbol c (Some (ProductionRef production))
                                (identifierText node) ParameterKind None of
                           (Some symbol, c) \<Rightarrow> cacheSymbol c node (Some symbol)
                         | (None, c) \<Rightarrow>
                             cacheSymbol
                               (diagnostics_reportNode c (nodeId node)
                                  Production_0_does_not_have_a_parameter_named_1
                                  [TextArgument (identifierText (productionName production)),
                                   TextArgument (identifierText node)])
                               node None)))
             else cacheSymbol c node None
         | _ \<Rightarrow> cacheSymbol c node None))"

definition checkIdentifier :: "Checker \<Rightarrow> Identifier \<Rightarrow> (Symbol option) outcome" where
  "checkIdentifier c node =
     (let c = snd (checkGrammarIdentifier c node)
      in if truthy (identifierText node)
         then
           (case getParent (bindings c) (nodeId node) of
              None \<Rightarrow> Returned None c
            | Some (ParameterRef parent) \<Rightarrow>
                (case resolveSymbol c (Some (IdentifierRef node)) (identifierText node)
                        ParameterKind None of
                   (symbol, c) \<Rightarrow>
                     Returned symbol
                       (if getSymbol (bindings c) (nodeId parent) \<noteq> symbol
                        then diagnostics_reportNode c (nodeId node) Duplicate_identifier_0
                               [TextArgument (identifierText node)]
                        else c))
            | Some (ProductionRef parent) \<Rightarrow> Returned (getSymbol (bindings c) (nodeId parent)) c
            | Some (NonterminalRef parent) \<Rightarrow>
                (case resolveSymbol c (Some (IdentifierRef node)) (identifierText node)
                        ProductionKind (Some Cannot_find_name_0) of
                   (symbol, c) \<Rightarrow> cacheSymbol c node symbol)
            | Some (ArgumentRef parent) \<Rightarrow> checkIdentifier_argument c node parent
            | Some (IdentifierRef parent) \<Rightarrow> cacheSymbol c node None
            | Some (OtherRef k parent) \<Rightarrow>
                if k = LookaheadAssertion
                then (case resolveSymbol c (Some (IdentifierRef node)) (identifierText node)
                             ProductionKind (Some Cannot_find_name_0) of
                        (symbol, c) \<Rightarrow> cacheSymbol c node symbol)
                else cacheSymbol c node None)
         else Returned None c)"

subsection \<open>Parameter lists\<close>

definition checkGrammarParameterList :: "Checker \<Rightarrow> ParameterList \<Rightarrow> bool \<times> Checker" where
  "checkGrammarParameterList c node =
     (case openParenToken node of
        None \<Rightarrow> reportGrammarError c (pos node) X0_expected [TokenArgument OpenBracketToken False]
      | Some opening \<Rightarrow>
          if kind opening = OpenParenToken
          then reportGrammarErrorForNode c (nodeId opening) Obsolete_0
                 [StringArgument ''Support for using parenthesis to enclose production parameter lists is deprecated and may be removed in a future update. Please switch to bracket's ('[', ']') when enclosing production parameter lists.'']
          else if parameterElements node = None
          then reportGrammarError c (pos node) X0_expected [TokenArgument Identifier False]
          else if closeParenToken node = None
          then reportGrammarError c (pos node) X0_expected [TokenArgument CloseBracketToken False]
          else (False, c))"

definition checkParameter :: "Checker \<Rightarrow> Parameter \<Rightarrow> unit outcome" where
  "checkParameter c node = andThen (checkIdentifier c (parameterName node)) (\<lambda>symbol. Returned ())"

text \<open>The loop reads \<^verbatim>\<open>node.elements\<close> untested: a list without elements throws.\<close>

definition checkParameterList :: "Checker \<Rightarrow> ParameterList \<Rightarrow> unit outcome" where
  "checkParameterList c node =
     (let c = snd (checkGrammarParameterList c node)
      in case parameterElements node of
           None \<Rightarrow> Thrown TypeError c
         | Some ps \<Rightarrow> forEachOf checkParameter ps c)"

subsection \<open>Productions: parameters\<close>

definition checkProductionNonStrict :: "Checker \<Rightarrow> Production \<Rightarrow> unit outcome" where
  "checkProductionNonStrict c node =
     andThen (checkIdentifier c (productionName node)) (\<lambda>symbol c.
       case parameterList node of
         Some l \<Rightarrow> checkParameterList c l
       | None \<Rightarrow> Returned () c)"

text \<open>The parameters of a production: none without a parameter list or without elements.\<close>

definition parametersOf :: "Production \<Rightarrow> Parameter list" where
  "parametersOf node =
     (case parameterList node of
        None \<Rightarrow> []
      | Some l \<Rightarrow> (case parameterElements l of None \<Rightarrow> [] | Some ps \<Rightarrow> ps))"

text \<open>The loop of \<open>getProductionParametersByName\<close>: a name that is empty or absent is skipped.\<close>

definition parametersByName :: "Parameter list \<Rightarrow> (string \<Rightarrow> bool option)" where
  "parametersByName ps =
     fold (\<lambda>parameter names.
             case identifierText (parameterName parameter) of
               Some parameterNameText \<Rightarrow>
                 if parameterNameText \<noteq> [] \<and> names parameterNameText = None
                 then names(parameterNameText \<mapsto> True) else names
             | None \<Rightarrow> names)
          ps Map.empty"

text \<open>\<^verbatim>\<open>Dictionary.has\<close> on the memo throws while the memo is \<open>undefined\<close>.\<close>

definition getProductionParametersByName ::
  "Checker \<Rightarrow> Production \<Rightarrow> (string \<Rightarrow> bool option) outcome" where
  "getProductionParametersByName c node =
     (case productionParametersByName c of
        None \<Rightarrow> Thrown TypeError c
      | Some memo \<Rightarrow>
         (case memo (nodeId node) of
            Some names \<Rightarrow> Returned names c
          | None \<Rightarrow>
             (let names = parametersByName (parametersOf node)
              in Returned names
                   (c\<lparr>productionParametersByName := Some (memo(nodeId node \<mapsto> names))\<rparr>))))"

text \<open>
  The two loops of \<open>checkProductionStrict\<close>: \<open>reportAt\<close> is the node the diagnostic is
  reported on, \<open>names\<close> the name set of the other declaration.
\<close>

definition reportMissingParameters ::
  "Checker \<Rightarrow> nat \<Rightarrow> string option \<Rightarrow> (string \<Rightarrow> bool option) \<Rightarrow> Parameter list \<Rightarrow> Checker" where
  "reportMissingParameters c reportAt thisProductionNameText names ps =
     fold (\<lambda>parameter c.
             if names (propertyKey (identifierText (parameterName parameter))) = None
             then diagnostics_reportNode c reportAt
                    Production_0_is_missing_parameter_1_All_definitions_of_production_0_must_specify_the_same_formal_parameters
                    [TextArgument thisProductionNameText,
                     TextArgument (identifierText (parameterName parameter))]
             else c)
          ps c"

text \<open>
  Two nodes are the same object when they have the same id. \<^verbatim>\<open>this.sourceFile.filename\<close>
  is read for a \<^verbatim>\<open>debugger\<close> statement, which does nothing else.
\<close>

definition checkProductionStrict :: "Checker \<Rightarrow> Production \<Rightarrow> unit outcome" where
  "checkProductionStrict c thisProduction =
     andThen (checkIdentifier c (productionName thisProduction)) (\<lambda>thisProductionSymbol c.
       let firstProduction = getDeclarations (bindings c) thisProductionSymbol
       in andThen (if length (parametersOf thisProduction) \<noteq> 0
                   then (case parameterList thisProduction of
                           Some l \<Rightarrow> checkParameterList c l
                         | None \<Rightarrow> Returned () c)
                   else Returned () c) (\<lambda>u c.
            if (case firstProduction of [] \<Rightarrow> False
                | first # _ \<Rightarrow> nodeId first = nodeId thisProduction)
            then Returned () c
            else if sourceFile c = None then Thrown TypeError c
            else
              andThen (getProductionParametersByName c thisProduction)
                (\<lambda>thisProductionParameterNames c.
                   case firstProduction of
                     [] \<Rightarrow> Thrown TypeError c
                   | first # _ \<Rightarrow>
                       andThen (getProductionParametersByName c first)
                         (\<lambda>firstProductionParameterNames c.
                            let c = reportMissingParameters c
                                      (nodeId (productionName thisProduction))
                                      (identifierText (productionName thisProduction))
                                      thisProductionParameterNames (parametersOf first);
                                c = reportMissingParameters c (nodeId first)
                                      (identifierText (productionName thisProduction))
                                      firstProductionParameterNames (parametersOf thisProduction)
                            in Returned () c))))"

subsection \<open>Nonterminals and arguments\<close>

definition checkGrammarArgumentList :: "Checker \<Rightarrow> ArgumentList \<Rightarrow> bool \<times> Checker" where
  "checkGrammarArgumentList c node =
     (case argumentsOpenParenToken node of
        None \<Rightarrow> reportGrammarError c (pos node) X0_expected [TokenArgument OpenBracketToken False]
      | Some opening \<Rightarrow>
          if kind opening = OpenParenToken
          then reportGrammarErrorForNode c (nodeId opening) Obsolete_0
                 [StringArgument ''Support for using parenthesis to enclose an argument list is deprecated and may be removed in a future update. Please switch to bracket's ('[', ']') when enclosing argument lists.'']
          else if argumentsElements node = None
          then reportGrammarError c (pos node) X0_expected [TokenArgument Identifier False]
          else if argumentsCloseParenToken node = None
          then reportGrammarError c (pos node) X0_expected [TokenArgument CloseBracketToken False]
          else (False, c))"

definition checkGrammarArgument :: "Checker \<Rightarrow> Argument \<Rightarrow> bool \<times> Checker" where
  "checkGrammarArgument c node =
     (case argumentOperatorToken node of
        Some operator \<Rightarrow>
          if kind operator \<noteq> QuestionToken \<and> kind operator \<noteq> PlusToken
               \<and> kind operator \<noteq> TildeToken
          then reportGrammarErrorForNode c (nodeId operator) Unexpected_token_0
                 [TokenArgument (kind operator) False]
          else (False, c)
      | None \<Rightarrow>
          if \<not> noStrictParametricProductions c
          then reportGrammarError c (pos node) X0_expected
                 [ListArgument [QuestionToken, PlusToken, TildeToken]]
          else (False, c))"

definition checkArgument :: "Checker \<Rightarrow> Argument \<Rightarrow> unit outcome" where
  "checkArgument c node =
     (let c = snd (checkGrammarArgument c node)
      in andThen (checkIdentifier c (argumentName node)) (\<lambda>symbol. Returned ()))"

definition checkArgumentList :: "Checker \<Rightarrow> ArgumentList \<Rightarrow> unit outcome" where
  "checkArgumentList c node =
     (let c = snd (checkGrammarArgumentList c node)
      in case argumentsElements node of
           Some args \<Rightarrow> forEachOf checkArgument args c
         | None \<Rightarrow> Returned () c)"

definition checkNonterminalNonStrict :: "Checker \<Rightarrow> Nonterminal \<Rightarrow> unit outcome" where
  "checkNonterminalNonStrict c node =
     andThen (checkIdentifier c (nonterminalName node)) (\<lambda>symbol c.
       case argumentList node of
         Some l \<Rightarrow> checkArgumentList c l
       | None \<Rightarrow> Returned () c)"

text \<open>The first loop of \<open>checkNonterminalStrict\<close>, with its local \<^verbatim>\<open>nameSet\<close>, which it returns.\<close>

fun checkArguments ::
  "Checker \<Rightarrow> Symbol \<Rightarrow> Production \<Rightarrow> (string \<Rightarrow> bool option) \<Rightarrow> Argument list
     \<Rightarrow> (string \<Rightarrow> bool option) \<times> Checker" where
  "checkArguments c productionSymbol production nameSet [] = (nameSet, c)"
| "checkArguments c productionSymbol production nameSet (argument # rest) =
     (let name = argumentName argument;
          argumentNameText = identifierText name
      in if nameSet (propertyKey argumentNameText) \<noteq> None
         then checkArguments
                (diagnostics_reportNode c (nodeId name)
                   Argument_0_cannot_be_specified_multiple_times [TextArgument argumentNameText])
                productionSymbol production nameSet rest
         else
           (case resolveSymbol c (Some (ProductionRef production)) argumentNameText
                   ParameterKind None of
              (parameterSymbol, c) \<Rightarrow>
                checkArguments
                  (if parameterSymbol = None
                   then diagnostics_reportNode c (nodeId name)
                          Production_0_does_not_have_a_parameter_named_1
                          [TextArgument (Some (symbolName productionSymbol)),
                           TextArgument argumentNameText]
                   else c)
                  productionSymbol production
                  (nameSet(propertyKey argumentNameText \<mapsto> True)) rest))"

text \<open>The second loop: a diagnostic on the name of the nonterminal for each parameter not in \<^verbatim>\<open>nameSet\<close>.\<close>

definition checkParameters ::
  "Checker \<Rightarrow> Identifier \<Rightarrow> (string \<Rightarrow> bool option) \<Rightarrow> Parameter list \<Rightarrow> Checker" where
  "checkParameters c reportAt nameSet ps =
     fold (\<lambda>parameter c.
             if nameSet (propertyKey (identifierText (parameterName parameter))) = None
             then diagnostics_reportNode c (nodeId reportAt)
                    There_is_no_argument_given_for_parameter_0
                    [TextArgument (identifierText (parameterName parameter))]
             else c)
          ps c"

text \<open>
  Reading \<^verbatim>\<open>.elements.length\<close> throws for a parameter list or an argument list without
  elements, and \<^verbatim>\<open>production.parameterList\<close> throws for a symbol without a declaration.
\<close>

definition checkNonterminalStrict :: "Checker \<Rightarrow> Nonterminal \<Rightarrow> unit outcome" where
  "checkNonterminalStrict c node =
     andThen (checkIdentifier c (nonterminalName node)) (\<lambda>productionSymbol c.
       andThen
         (case productionSymbol of
            None \<Rightarrow> Returned () c
          | Some symbol \<Rightarrow>
             (case getDeclarations (bindings c) productionSymbol of
                [] \<Rightarrow> Thrown TypeError c
              | production # _ \<Rightarrow>
                 (case (case parameterList production of
                          None \<Rightarrow> Some []
                        | Some l \<Rightarrow> parameterElements l) of
                    None \<Rightarrow> Thrown TypeError c
                  | Some ps \<Rightarrow>
                     (case (case argumentList node of
                              None \<Rightarrow> Some []
                            | Some l \<Rightarrow> argumentsElements l) of
                        None \<Rightarrow> Thrown TypeError c
                      | Some args \<Rightarrow>
                         (case checkArguments c symbol production Map.empty args of
                            (nameSet, c) \<Rightarrow>
                              Returned () (checkParameters c (nonterminalName node) nameSet ps))))))
         (\<lambda>u c. case argumentList node of
                   Some l \<Rightarrow> checkArgumentList c l
                 | None \<Rightarrow> Returned () c))"

definition checkNonterminal :: "Checker \<Rightarrow> Nonterminal \<Rightarrow> bool \<Rightarrow> unit outcome" where
  "checkNonterminal c node allowOptional =
     (let c = snd (checkGrammarOptionalSymbol c (nonterminalQuestionToken node) allowOptional)
      in if noStrictParametricProductions c
         then checkNonterminalNonStrict c node
         else checkNonterminalStrict c node)"

subsection \<open>Alternatives\<close>

definition checkGrammarLinkReference :: "Checker \<Rightarrow> LinkReference \<Rightarrow> bool \<times> Checker" where
  "checkGrammarLinkReference c node =
     (if \<not> truthy (referenceText node)
      then reportGrammarErrorForNode c (nodeId node) X0_expected [StringArgument ''string'']
      else (False, c))"

definition checkLinkReference :: "Checker \<Rightarrow> LinkReference \<Rightarrow> Checker" where
  "checkLinkReference c node = snd (checkGrammarLinkReference c node)"

text \<open>
  \<open>checkSymbolSpan\<close>, the check of the symbols of an alternative, is the argument
  \<open>symbols\<close> of the functions from here on: it may report diagnostics and cache
  symbols, and what is proved of these functions holds whatever it does.
\<close>

type_synonym symbolCheck = "Checker \<Rightarrow> SyntaxNode \<Rightarrow> unit outcome"

definition checkRightHandSide :: "symbolCheck \<Rightarrow> Checker \<Rightarrow> RightHandSide \<Rightarrow> unit outcome" where
  "checkRightHandSide symbols c node =
     andThen (symbols c (head node)) (\<lambda>u c.
       case reference node of
         Some r \<Rightarrow> Returned () (checkLinkReference c r)
       | None \<Rightarrow> Returned () c)"

definition checkGrammarRightHandSideList :: "Checker \<Rightarrow> RightHandSideList \<Rightarrow> bool \<times> Checker" where
  "checkGrammarRightHandSideList c node =
     (if listOpenIndentToken node = None
      then reportGrammarErrorForNode c (nodeId node) X0_expected [TokenArgument IndentToken False]
      else if (case listElements node of None \<Rightarrow> True | Some es \<Rightarrow> length es = 0)
      then reportGrammarErrorForNode c (nodeId node) X0_expected
             [ListArgument [Terminal, Identifier, OpenBracketToken]]
      else if listCloseIndentToken node = None
      then reportGrammarError c (endPos node) X0_expected [TokenArgument DedentToken False]
      else (False, c))"

definition checkRightHandSideList ::
  "symbolCheck \<Rightarrow> Checker \<Rightarrow> RightHandSideList \<Rightarrow> unit outcome" where
  "checkRightHandSideList symbols c node =
     (let c = snd (checkGrammarRightHandSideList c node)
      in case listElements node of
           Some es \<Rightarrow> forEachOf (checkRightHandSide symbols) es c
         | None \<Rightarrow> Returned () c)"

subsection \<open>Source elements and source files\<close>

definition checkProduction :: "symbolCheck \<Rightarrow> Checker \<Rightarrow> Production \<Rightarrow> unit outcome" where
  "checkProduction symbols c node =
     (let c = snd (checkGrammarProduction c node)
      in andThen (if noStrictParametricProductions c
                  then checkProductionNonStrict c node
                  else checkProductionStrict c node) (\<lambda>u c.
           case body node of
             Some (OneOfListBody l) \<Rightarrow> Returned () (checkOneOfList c l)
           | Some (RightHandSideListBody l) \<Rightarrow> checkRightHandSideList symbols c l
           | Some (RightHandSideBody r) \<Rightarrow> checkRightHandSide symbols c r
           | _ \<Rightarrow> Returned () c))"

definition reportInvalidSourceElement :: "Checker \<Rightarrow> Node \<Rightarrow> Checker" where
  "reportInvalidSourceElement c node =
     snd (reportGrammarErrorForNode c (nodeId node) X0_expected [ListArgument [Production]])"

definition checkSourceElement :: "symbolCheck \<Rightarrow> Checker \<Rightarrow> SourceElement \<Rightarrow> unit outcome" where
  "checkSourceElement symbols c node =
     (case node of
        ProductionElement p \<Rightarrow> checkProduction symbols c p
      | InvalidElement n \<Rightarrow> Returned () (reportInvalidSourceElement c n)
      | _ \<Rightarrow> Returned () c)"

text \<open>The function returns \<open>undefined\<close>, which its caller reads as false, when the directive is well formed.\<close>

definition checkGrammarDefine :: "Checker \<Rightarrow> Define \<Rightarrow> bool \<times> Checker" where
  "checkGrammarDefine c node =
     (case key node of
        None \<Rightarrow> reportGrammarError c (endPos (defineKeyword node)) X0_expected
                  [TokenArgument Identifier False]
      | Some k \<Rightarrow>
          if \<not> truthy (identifierText k)
          then reportGrammarError c (endPos (defineKeyword node)) X0_expected
                 [TokenArgument Identifier False]
          else if valueToken node = None
          then reportGrammarError c (endPos k) X0_expected [ListArgument [TrueKeyword, FalseKeyword]]
          else (False, c))"

text \<open>After a directive passed \<open>checkGrammarDefine\<close> it has a key and a value token.\<close>

definition preprocessDefine :: "Checker \<Rightarrow> Define \<Rightarrow> Checker" where
  "preprocessDefine c node =
     (case checkGrammarDefine c node of
        (True, c) \<Rightarrow> c
      | (False, c) \<Rightarrow>
         (case (key node, valueToken node) of
            (Some nodeKey, Some v) \<Rightarrow>
              if identifierText nodeKey = Some ''noStrictParametricProductions''
              then c\<lparr>noStrictParametricProductions := (kind v = TrueKeyword)\<rparr>
              else diagnostics_reportNode c (nodeId nodeKey) Cannot_find_name_0
                     [TextArgument (identifierText nodeKey)]
          | _ \<Rightarrow> c))"

definition preprocessSourceElement :: "Checker \<Rightarrow> SourceElement \<Rightarrow> Checker" where
  "preprocessSourceElement c node =
     (case node of DefineElement d \<Rightarrow> preprocessDefine c d | _ \<Rightarrow> c)"

text \<open>
  \<^verbatim>\<open>throwIfCancellationRequested\<close> throws when cancellation is requested; nothing but
  the local \<^verbatim>\<open>savedNoStrictParametricProductions\<close> was assigned before it.
\<close>

definition checkSourceFile :: "symbolCheck \<Rightarrow> Checker \<Rightarrow> SourceFile \<Rightarrow> unit outcome" where
  "checkSourceFile symbols c file =
     (if checkedFileSet c (filename file) = None
      then
        (let savedNoStrictParametricProductions = noStrictParametricProductions c
         in if cancellationRequested c then Thrown OperationCanceled c
            else
              (let c = c\<lparr>productionParametersByName := Some Map.empty\<rparr>;
                   c = c\<lparr>sourceFile := Some file\<rparr>;
                   c = c\<lparr>diagnostics := setSourceFile (diagnostics c) file\<rparr>;
                   c = fold (\<lambda>element c. preprocessSourceElement c element) (elements file) c
               in andThen (forEachOf (checkSourceElement symbols) (elements file) c) (\<lambda>u c.
                    Returned ()
                      (c\<lparr>sourceFile := None,
                         productionParametersByName := None,
                         noStrictParametricProductions := savedNoStrictParametricProductions,
                         checkedFileSet := (checkedFileSet c)(filename file \<mapsto> True)\<rparr>))))
      else Returned () c)"

section \<open>The resolver and the digest of an alternative\<close>

text \<open>
  What the digest takes from other modules: \<^verbatim>\<open>tokenToString\<close> of the tokens module,
  \<^verbatim>\<open>forEachChild\<close> of the nodes module for the nodes \<open>writeNode\<close> has no case for
  (their children are tokens), and the hexadecimal SHA-1 digest of the \<^verbatim>\<open>crypto\<close>
  module of the runtime.
\<close>

record DigestEnv =
  tokenToString :: "SyntaxKind \<Rightarrow> string option"
  forEachChild :: "SyntaxNode \<Rightarrow> Token list"
  sha1Hex :: "string \<Rightarrow> string"

text \<open>
  The fields of the class RightHandSideDigest; \<open>writer\<close> is a StringWriter, of which
  only \<^verbatim>\<open>write\<close>, \<^verbatim>\<open>size\<close> and \<^verbatim>\<open>toString\<close> are used. A new instance has
  \<open>spaceRequested\<close> \<open>undefined\<close>, which is read as false.
\<close>

record RightHandSideDigest =
  spaceRequested :: bool
  writer :: string

definition newRightHandSideDigest :: RightHandSideDigest where
  "newRightHandSideDigest = \<lparr>spaceRequested = False, writer = []\<rparr>"

definition writeString :: "RightHandSideDigest \<Rightarrow> string option \<Rightarrow> RightHandSideDigest" where
  "writeString d t =
     (case t of
        None \<Rightarrow> d
      | Some s \<Rightarrow>
          if s = [] then d
          else if spaceRequested d \<and> length (writer d) > 0
          then d\<lparr>spaceRequested := False, writer := writer d @ '' '' @ s\<rparr>
          else d\<lparr>writer := writer d @ s\<rparr>)"

definition writeToken :: "DigestEnv \<Rightarrow> RightHandSideDigest \<Rightarrow> SyntaxKind \<Rightarrow> RightHandSideDigest" where
  "writeToken env d k = (writeString d (tokenToString env k))\<lparr>spaceRequested := True\<rparr>"

text \<open>\<open>writeNode\<close> on a token, or on \<open>undefined\<close>: a keyword or a punctuation token is written, any other token has no children.\<close>

definition writeTokenNode ::
  "DigestEnv \<Rightarrow> RightHandSideDigest \<Rightarrow> Token option \<Rightarrow> RightHandSideDigest" where
  "writeTokenNode env d t =
     (case t of
        None \<Rightarrow> d
      | Some n \<Rightarrow>
          if (FirstKeyword \<le> kind n \<and> kind n \<le> LastKeyword)
               \<or> (FirstPunctuation \<le> kind n \<and> kind n \<le> LastPunctuation)
          then writeToken env d (kind n)
          else d)"

definition writeIdentifier :: "RightHandSideDigest \<Rightarrow> Identifier \<Rightarrow> RightHandSideDigest" where
  "writeIdentifier d node = writeString d (identifierText node)"

definition writeTerminal :: "DigestEnv \<Rightarrow> RightHandSideDigest \<Rightarrow> Terminal \<Rightarrow> RightHandSideDigest" where
  "writeTerminal env d node =
     (let d = writeString d (Some [CHR 0x60]);
          d = writeString d (terminalText node);
          d = writeString d (Some [CHR 0x60]);
          d = writeTokenNode env d (terminalQuestionToken node)
      in d\<lparr>spaceRequested := True\<rparr>)"

definition writeUnicodeCharacterLiteral ::
  "DigestEnv \<Rightarrow> RightHandSideDigest \<Rightarrow> UnicodeCharacterLiteral \<Rightarrow> RightHandSideDigest" where
  "writeUnicodeCharacterLiteral env d node =
     (let d = writeString d (Some ''<'');
          d = writeString d (literalText node);
          d = writeString d (Some ''>'');
          d = writeTokenNode env d (literalQuestionToken node)
      in d\<lparr>spaceRequested := True\<rparr>)"

definition writeArgument :: "DigestEnv \<Rightarrow> RightHandSideDigest \<Rightarrow> Argument \<Rightarrow> RightHandSideDigest" where
  "writeArgument env d node =
     writeIdentifier (writeTokenNode env d (argumentOperatorToken node)) (argumentName node)"

fun writeArguments ::
  "DigestEnv \<Rightarrow> bool \<Rightarrow> RightHandSideDigest \<Rightarrow> Argument list \<Rightarrow> RightHandSideDigest" where
  "writeArguments env first d [] = d"
| "writeArguments env first d (a # rest) =
     writeArguments env False
       (writeArgument env (if first then d else writeString d (Some '', '')) a) rest"

text \<open>Reading \<^verbatim>\<open>node.elements.length\<close> throws for a list without elements.\<close>

definition writeArgumentList ::
  "DigestEnv \<Rightarrow> RightHandSideDigest \<Rightarrow> ArgumentList \<Rightarrow> error + RightHandSideDigest" where
  "writeArgumentList env d node =
     (case argumentsElements node of
        None \<Rightarrow> Inl TypeError
      | Some args \<Rightarrow> Inr (writeString (writeArguments env True (writeString d (Some ''['')) args) (Some '']'')))"

definition writeNonterminal ::
  "DigestEnv \<Rightarrow> RightHandSideDigest \<Rightarrow> Nonterminal \<Rightarrow> error + RightHandSideDigest" where
  "writeNonterminal env d node =
     (let d = writeIdentifier d (nonterminalName node)
      in case (case argumentList node of
                 None \<Rightarrow> Inr d
               | Some l \<Rightarrow> writeArgumentList env d l) of
           Inl e \<Rightarrow> Inl e
         | Inr d \<Rightarrow>
             Inr ((writeTokenNode env d (nonterminalQuestionToken node))\<lparr>spaceRequested := True\<rparr>))"

definition writeUnicodeCharacterRange ::
  "DigestEnv \<Rightarrow> RightHandSideDigest \<Rightarrow> UnicodeCharacterRange \<Rightarrow> RightHandSideDigest" where
  "writeUnicodeCharacterRange env d node =
     (let d = (case rangeLeft node of
                 None \<Rightarrow> d | Some l \<Rightarrow> writeUnicodeCharacterLiteral env d l);
          d = writeTokenNode env d (throughKeyword node);
          d = (case rangeRight node of
                 None \<Rightarrow> d | Some r \<Rightarrow> writeUnicodeCharacterLiteral env d r)
      in d\<lparr>spaceRequested := True\<rparr>)"

text \<open>
  \<open>writeNode\<close>, with \<open>writeChild\<close> for a child that may be \<open>undefined\<close> and \<open>writeList\<close>
  for the loops over children: \<open>separator\<close> is written before every child but the
  first, \<open>reset\<close> says that \<open>spaceRequested\<close> is cleared after each child, and \<open>bars\<close>
  that a child of kind Identifier is written between bars (the loop of
  \<open>writeProseAssertion\<close>).
\<close>

fun writeNode ::
    "DigestEnv \<Rightarrow> RightHandSideDigest \<Rightarrow> SyntaxNode \<Rightarrow> error + RightHandSideDigest"
  and writeChild ::
    "DigestEnv \<Rightarrow> RightHandSideDigest \<Rightarrow> SyntaxNode option \<Rightarrow> error + RightHandSideDigest"
  and writeList ::
    "DigestEnv \<Rightarrow> string option \<Rightarrow> bool \<Rightarrow> bool \<Rightarrow> bool \<Rightarrow> RightHandSideDigest
       \<Rightarrow> SyntaxNode list \<Rightarrow> error + RightHandSideDigest"
where
  "writeNode env d (TerminalNode n) = Inr (writeTerminal env d n)"
| "writeNode env d (UnicodeCharacterLiteralNode n) = Inr (writeUnicodeCharacterLiteral env d n)"
| "writeNode env d (UnicodeCharacterRangeNode n) = Inr (writeUnicodeCharacterRange env d n)"
| "writeNode env d (NonterminalNode n) = writeNonterminal env d n"
| "writeNode env d (IdentifierNode n) = Inr (writeIdentifier d n)"
| "writeNode env d (TokenNode t) = Inr (writeTokenNode env d (Some t))"
| "writeNode env d (ProseFragmentLiteralNode n) = Inr (writeString d (fragmentText n))"
| "writeNode env d (ProseNode n fragments) =
     writeList env None False False True (writeString d (Some ''> '')) fragments"
| "writeNode env d (ButNotSymbolNode n butKeyword notKeyword left right) =
     (case writeChild env d left of
        Inl e \<Rightarrow> Inl e
      | Inr d \<Rightarrow>
         (case writeChild env (writeTokenNode env (writeTokenNode env d butKeyword) notKeyword)
                 right of
            Inl e \<Rightarrow> Inl e
          | Inr d \<Rightarrow> Inr (d\<lparr>spaceRequested := True\<rparr>)))"
| "writeNode env d (OneOfSymbolNode n oneToken ofToken symbols) =
     (case symbols of
        None \<Rightarrow> Inl TypeError
      | Some ss \<Rightarrow>
         (case writeList env (Some '' or '') True False True (writeString d (Some ''one of '')) ss of
            Inl e \<Rightarrow> Inl e
          | Inr d \<Rightarrow> Inr (d\<lparr>spaceRequested := True\<rparr>)))"
| "writeNode env d (EmptyAssertionNode a emptyKeyword) =
     Inr ((writeString d (Some ''[empty]''))\<lparr>spaceRequested := True\<rparr>)"
| "writeNode env d (LookaheadAssertionNode a lookaheadKeyword operatorToken lookahead) =
     (case writeChild env (writeTokenNode env (writeString d (Some ''[lookahead '')) operatorToken)
             lookahead of
        Inl e \<Rightarrow> Inl e
      | Inr d \<Rightarrow> Inr ((writeString (d\<lparr>spaceRequested := False\<rparr>) (Some '']''))\<lparr>spaceRequested := True\<rparr>))"
| "writeNode env d (LexicalGoalAssertionNode a lexicalKeyword goalKeyword symbol) =
     (let d = writeString d (Some ''[lexical goal '');
          d = (case symbol of None \<Rightarrow> d | Some s \<Rightarrow> writeIdentifier d s)
      in Inr ((writeString (d\<lparr>spaceRequested := False\<rparr>) (Some '']''))\<lparr>spaceRequested := True\<rparr>))"
| "writeNode env d (NoSymbolHereAssertionNode a noKeyword symbols hereKeyword) =
     (case symbols of
        None \<Rightarrow> Inl TypeError
      | Some ss \<Rightarrow>
         (case writeList env (Some '' or '') True False True (writeString d (Some ''[no '')) ss of
            Inl e \<Rightarrow> Inl e
          | Inr d \<Rightarrow> Inr (writeString d (Some '' here]''))))"
| "writeNode env d (ParameterValueAssertionNode a operatorToken name) =
     (case operatorToken of
        None \<Rightarrow> Inl TypeError
      | Some t \<Rightarrow>
         (let d = writeToken env (writeString d (Some ''['')) (kind t);
              d = d\<lparr>spaceRequested := False\<rparr>;
              d = (case name of None \<Rightarrow> d | Some i \<Rightarrow> writeIdentifier d i)
          in Inr ((writeString d (Some '']''))\<lparr>spaceRequested := True\<rparr>)))"
| "writeNode env d (ProseAssertionNode a fragments) =
     (case writeList env None False True True
             ((writeString d (Some ''[>''))\<lparr>spaceRequested := False\<rparr>) fragments of
        Inl e \<Rightarrow> Inl e
      | Inr d \<Rightarrow> Inr ((writeString d (Some '']''))\<lparr>spaceRequested := True\<rparr>))"
| "writeNode env d (InvalidAssertionNode a) =
     Inr (fold (\<lambda>t d. writeTokenNode env d (Some t)) (forEachChild env (InvalidAssertionNode a)) d)"
| "writeNode env d (InvalidSymbolNode n) =
     Inr (fold (\<lambda>t d. writeTokenNode env d (Some t)) (forEachChild env (InvalidSymbolNode n)) d)"
| "writeNode env d (SymbolSpanNode n symbol next) =
     (case writeChild env d symbol of
        Inl e \<Rightarrow> Inl e
      | Inr d \<Rightarrow> writeChild env d next)"
| "writeNode env d (SymbolSetNode n openBraceToken elems closeBraceToken) =
     (case elems of
        None \<Rightarrow> Inl TypeError
      | Some es \<Rightarrow>
         (case writeList env (Some '', '') True False True (writeString d (Some ''{ '')) es of
            Inl e \<Rightarrow> Inl e
          | Inr d \<Rightarrow> Inr ((writeString d (Some '' }''))\<lparr>spaceRequested := True\<rparr>)))"
| "writeChild env d None = Inr d"
| "writeChild env d (Some n) = writeNode env d n"
| "writeList env separator reset bars first d [] = Inr d"
| "writeList env separator reset bars first d (n # rest) =
     (let d = (if first then d else writeString d separator)
      in case (if bars \<and> kindOf n = Identifier
               then (case writeNode env (writeString d (Some ''|'')) n of
                       Inl e \<Rightarrow> Inl e
                     | Inr d \<Rightarrow> Inr (writeString (d\<lparr>spaceRequested := False\<rparr>) (Some ''|'')))
               else writeNode env d n) of
           Inl e \<Rightarrow> Inl e
         | Inr d \<Rightarrow>
             writeList env separator reset bars False
               (if reset then d\<lparr>spaceRequested := False\<rparr> else d) rest)"

text \<open>
  \<open>writeString\<close> is the method \<^verbatim>\<open>write\<close>.
\<close>

text \<open>
  \<open>computeHash\<close> on a digest instance: it replaces the writer, writes the head of the
  alternative, and returns the first eight characters of the hexadecimal digest.
\<close>

definition computeHash ::
  "DigestEnv \<Rightarrow> RightHandSideDigest \<Rightarrow> RightHandSide \<Rightarrow> error + string \<times> RightHandSideDigest" where
  "computeHash env this node =
     (case writeNode env (this\<lparr>writer := []\<rparr>) (head node) of
        Inl e \<Rightarrow> Inl e
      | Inr d \<Rightarrow> Inr (take 8 (sha1Hex env (writer d)), d))"

text \<open>\<^verbatim>\<open>toLowerCase\<close>, on the letters of ASCII.\<close>

definition toLowerCase :: "string \<Rightarrow> string" where
  "toLowerCase s =
     map (\<lambda>ch. if 65 \<le> (of_char ch :: nat) \<and> (of_char ch :: nat) \<le> 90
               then char_of ((of_char ch :: nat) + 32) else ch) s"

text \<open>
  \<^verbatim>\<open>text.replace(/[^a-z0-9]+/g, '-')\<close>: every maximal run of characters that are not
  in \<open>a\<close> to \<open>z\<close> or \<open>0\<close> to \<open>9\<close> becomes one \<open>-\<close>. \<open>inRun\<close> says that the character
  before was replaced.
\<close>

definition inClass :: "char \<Rightarrow> bool" where
  "inClass ch = ((97 \<le> (of_char ch :: nat) \<and> (of_char ch :: nat) \<le> 122)
                 \<or> (48 \<le> (of_char ch :: nat) \<and> (of_char ch :: nat) \<le> 57))"

fun replaceRuns :: "bool \<Rightarrow> string \<Rightarrow> string" where
  "replaceRuns inRun [] = []"
| "replaceRuns inRun (ch # rest) =
     (if inClass ch then ch # replaceRuns False rest
      else if inRun then replaceRuns True rest
      else CHR ''-'' # replaceRuns True rest)"

text \<open>The methods of the class Resolver that make link ids.\<close>

definition getProductionLinkId :: "BindingTable \<Rightarrow> Identifier \<Rightarrow> string option" where
  "getProductionLinkId bt node =
     (case bindings_resolveSymbol bt (Some (IdentifierRef node)) (identifierText node)
             ProductionKind of
        Some symbol \<Rightarrow> Some (symbolName symbol)
      | None \<Rightarrow> None)"

text \<open>
  Concatenation turns an \<open>undefined\<close> production id into the text \<^verbatim>\<open>undefined\<close>;
  reading \<^verbatim>\<open>production.name\<close> throws when the alternative has no production above it.
\<close>

definition getRightHandSideLinkId ::
  "DigestEnv \<Rightarrow> BindingTable \<Rightarrow> RightHandSide \<Rightarrow> bool \<Rightarrow> error + string" where
  "getRightHandSideLinkId env bt node includePrefix =
     (case (case reference node of
              Some r \<Rightarrow>
                if truthy (referenceText r)
                then Inr (replaceRuns False (propertyKey (referenceText r)))
                else map_sum id (toLowerCase \<circ> fst) (computeHash env newRightHandSideDigest node)
            | None \<Rightarrow>
                map_sum id (toLowerCase \<circ> fst) (computeHash env newRightHandSideDigest node)) of
        Inl e \<Rightarrow> Inl e
      | Inr linkId \<Rightarrow>
          if includePrefix
          then (case getAncestor bt (nodeId node) Production of
                  Some (ProductionRef production) \<Rightarrow>
                    Inr (propertyKey (getProductionLinkId bt (productionName production))
                           @ ''-'' @ linkId)
                | _ \<Rightarrow> Inl TypeError)
          else Inr linkId)"

section \<open>Sample grammars\<close>

text \<open>Nodes of small grammars, for the concrete instances of the theorems below.\<close>

definition mkToken :: "nat \<Rightarrow> SyntaxKind \<Rightarrow> nat \<Rightarrow> nat \<Rightarrow> Token" where
  "mkToken i k p e = \<lparr>nodeId = i, pos = p, endPos = e, kind = k\<rparr>"

definition mkIdentifier :: "nat \<Rightarrow> string \<Rightarrow> nat \<Rightarrow> nat \<Rightarrow> Identifier" where
  "mkIdentifier i t p e = \<lparr>nodeId = i, pos = p, endPos = e, identifierText = Some t\<rparr>"

definition mkTerminal :: "nat \<Rightarrow> string \<Rightarrow> nat \<Rightarrow> nat \<Rightarrow> Terminal" where
  "mkTerminal i t p e =
     \<lparr>nodeId = i, pos = p, endPos = e, terminalText = Some t, terminalQuestionToken = None\<rparr>"

definition mkParameter :: "nat \<Rightarrow> Identifier \<Rightarrow> Parameter" where
  "mkParameter i n = \<lparr>nodeId = i, pos = pos n, endPos = endPos n, parameterName = n\<rparr>"

definition mkParameterList :: "nat \<Rightarrow> nat \<Rightarrow> nat \<Rightarrow> Parameter list \<Rightarrow> ParameterList" where
  "mkParameterList i p e ps =
     \<lparr>nodeId = i, pos = p, endPos = e,
      openParenToken = Some (mkToken (i + 1) OpenBracketToken p (p + 1)),
      parameterElements = Some ps,
      closeParenToken = Some (mkToken (i + 2) CloseBracketToken (e - 1) e)\<rparr>"

text \<open>An empty binding table, and a checker as its constructor leaves it, in strict mode.\<close>

definition emptyBindings :: BindingTable where
  "emptyBindings =
     \<lparr>parentChain = (\<lambda>n. []), symbolMap = Map.empty, globalScope = Map.empty,
      parameterScope = (\<lambda>s. Map.empty), declarationMap = (\<lambda>s. [])\<rparr>"

definition newChecker :: "BindingTable \<Rightarrow> Checker" where
  "newChecker bt =
     \<lparr>checkedFileSet = Map.empty, bindings = bt,
      diagnostics = \<lparr>currentFile = None, entries = []\<rparr>,
      sourceFile = None, noStrictParametricProductions = False,
      productionParametersByName = None, cancellationRequested = False\<rparr>"

text \<open>The production \<^verbatim>\<open>A :\<close>, whose body is missing: the name ends at 1, the colon at 3.\<close>

definition productionWithoutBody :: Production where
  "productionWithoutBody =
     \<lparr>nodeId = 1, pos = 0, endPos = 3,
      productionName = mkIdentifier 2 ''A'' 0 1,
      parameterList = None,
      colonToken = Some (mkToken 3 ColonToken 2 3),
      body = None\<rparr>"

text \<open>The list \<^verbatim>\<open>one of `a` `b` `a` ``\<close>: the third mkTerminal repeats the first, the fourth is empty.\<close>

definition sampleOneOfList :: OneOfList where
  "sampleOneOfList =
     \<lparr>nodeId = 10, pos = 4, endPos = 22,
      oneKeyword = Some (mkToken 11 OneKeyword 4 7),
      ofKeyword = Some (mkToken 12 OfKeyword 8 10),
      openIndentToken = None,
      terminals = Some [mkTerminal 13 ''a'' 11 14, mkTerminal 14 ''b'' 15 18,
                        mkTerminal 15 ''a'' 19 22, mkTerminal 16 [] 23 25],
      closeIndentToken = None\<rparr>"

text \<open>
  A list of two terminals: the first has no text, the text of the second is the word
  \<^verbatim>\<open>undefined\<close>.
\<close>

definition undefinedOneOfList :: OneOfList where
  "undefinedOneOfList =
     \<lparr>nodeId = 200, pos = 0, endPos = 20,
      oneKeyword = Some (mkToken 201 OneKeyword 0 3),
      ofKeyword = Some (mkToken 202 OfKeyword 4 6),
      openIndentToken = None,
      terminals = Some [\<lparr>nodeId = 203, pos = 7, endPos = 7, terminalText = None,
                          terminalQuestionToken = None\<rparr>,
                        mkTerminal 204 ''undefined'' 8 19],
      closeIndentToken = None\<rparr>"

text \<open>
  A source file: the directive \<^verbatim>\<open>@define noStrictParametricProductions true\<close>, an
  element that is no production, and the production \<^verbatim>\<open>B :: one of `a` `b` `a` ``\<close>.
\<close>

definition sampleDefine :: Define where
  "sampleDefine =
     \<lparr>nodeId = 20, pos = 0, endPos = 42,
      defineKeyword = mkToken 21 DefineKeyword 0 7,
      key = Some (mkIdentifier 22 ''noStrictParametricProductions'' 8 37),
      valueToken = Some (mkToken 23 TrueKeyword 38 42)\<rparr>"

definition sampleProduction :: Production where
  "sampleProduction =
     \<lparr>nodeId = 30, pos = 50, endPos = 80,
      productionName = mkIdentifier 31 ''B'' 50 51,
      parameterList = None,
      colonToken = Some (mkToken 32 ColonToken 52 54),
      body = Some (OneOfListBody sampleOneOfList)\<rparr>"

definition sampleFile :: SourceFile where
  "sampleFile =
     \<lparr>nodeId = 40, pos = 0, endPos = 80, filename = ''sample.grammar'',
      elements = [DefineElement sampleDefine,
                  InvalidElement \<lparr>nodeId = 41, pos = 43, endPos = 49\<rparr>,
                  ProductionElement sampleProduction]\<rparr>"

definition sampleBindings :: BindingTable where
  "sampleBindings =
     emptyBindings
       \<lparr>parentChain := (\<lambda>n. if n = 31 then [ProductionRef sampleProduction, OtherRef SourceFile 40]
                              else []),
        symbolMap := [30 \<mapsto> \<lparr>symbolId = 1, symbolName = ''B'', symbolKind = ProductionKind\<rparr>],
        globalScope := [''B'' \<mapsto> \<lparr>symbolId = 1, symbolName = ''B'', symbolKind = ProductionKind\<rparr>],
        declarationMap := (\<lambda>s. if s = 1 then [sampleProduction] else [])\<rparr>"

text \<open>A check of symbols that reports nothing, for files whose alternatives are not looked at.\<close>

definition noSymbols :: symbolCheck where
  "noSymbols c node = Returned () c"

text \<open>A second source file, with one element that is no production.\<close>

definition otherFile :: SourceFile where
  "otherFile =
     \<lparr>nodeId = 50, pos = 0, endPos = 5, filename = ''other.grammar'',
      elements = [InvalidElement \<lparr>nodeId = 51, pos = 0, endPos = 5\<rparr>]\<rparr>"

text \<open>
  The checker as \<open>checkSourceFile\<close> has it when it checks the elements of a file: the
  memo is empty and the file is set.
\<close>

definition checkerIn :: "BindingTable \<Rightarrow> SourceFile \<Rightarrow> Checker" where
  "checkerIn bt f =
     (newChecker bt)
       \<lparr>productionParametersByName := Some Map.empty, sourceFile := Some f,
        diagnostics := \<lparr>currentFile = Some (filename f), entries = []\<rparr>\<rparr>"

text \<open>
  Two declarations of one production: \<^verbatim>\<open>P[x, x] :\<close>, the canonical one, and \<^verbatim>\<open>P :\<close>.
\<close>

definition symbolP :: Symbol where
  "symbolP = \<lparr>symbolId = 1, symbolName = ''P'', symbolKind = ProductionKind\<rparr>"

definition canonicalP :: Production where
  "canonicalP =
     \<lparr>nodeId = 60, pos = 0, endPos = 9,
      productionName = mkIdentifier 61 ''P'' 0 1,
      parameterList = Some (mkParameterList 62 1 7
         [mkParameter 65 (mkIdentifier 66 ''x'' 2 3), mkParameter 67 (mkIdentifier 68 ''x'' 5 6)]),
      colonToken = Some (mkToken 69 ColonToken 8 9),
      body = None\<rparr>"

definition secondP :: Production where
  "secondP =
     \<lparr>nodeId = 70, pos = 10, endPos = 13,
      productionName = mkIdentifier 71 ''P'' 10 11,
      parameterList = None,
      colonToken = Some (mkToken 72 ColonToken 12 13),
      body = None\<rparr>"

definition fileP :: SourceFile where
  "fileP =
     \<lparr>nodeId = 73, pos = 0, endPos = 13, filename = ''p.grammar'',
      elements = [ProductionElement canonicalP, ProductionElement secondP]\<rparr>"

definition bindingsP :: BindingTable where
  "bindingsP =
     emptyBindings
       \<lparr>parentChain := (\<lambda>n. if n = 61 then [ProductionRef canonicalP, OtherRef SourceFile 73]
                              else if n = 71 then [ProductionRef secondP, OtherRef SourceFile 73]
                              else []),
        symbolMap := [60 \<mapsto> symbolP, 70 \<mapsto> symbolP],
        globalScope := [''P'' \<mapsto> symbolP],
        parameterScope := (\<lambda>s. if s = 1
           then [''x'' \<mapsto> \<lparr>symbolId = 2, symbolName = ''x'', symbolKind = ParameterKind\<rparr>]
           else Map.empty),
        declarationMap := (\<lambda>s. if s = 1 then [canonicalP, secondP] else [])\<rparr>"

text \<open>
  The production \<^verbatim>\<open>Q : `q`\<close>, which has no parameter, and in the production
  \<^verbatim>\<open>S : Q[+z]\<close> the nonterminal that passes it the argument \<open>z\<close>.
\<close>

definition symbolQ :: Symbol where
  "symbolQ = \<lparr>symbolId = 3, symbolName = ''Q'', symbolKind = ProductionKind\<rparr>"

definition productionQ :: Production where
  "productionQ =
     \<lparr>nodeId = 80, pos = 0, endPos = 7,
      productionName = mkIdentifier 81 ''Q'' 0 1,
      parameterList = None,
      colonToken = Some (mkToken 82 ColonToken 2 3),
      body = None\<rparr>"

definition argumentZ :: Argument where
  "argumentZ =
     \<lparr>nodeId = 93, pos = 14, endPos = 16,
      argumentOperatorToken = Some (mkToken 94 PlusToken 14 15),
      argumentName = mkIdentifier 95 ''z'' 15 16\<rparr>"

definition nonterminalQ :: Nonterminal where
  "nonterminalQ =
     \<lparr>nodeId = 90, pos = 12, endPos = 17,
      nonterminalName = mkIdentifier 91 ''Q'' 12 13,
      argumentList = Some
        \<lparr>nodeId = 92, pos = 13, endPos = 17,
         argumentsOpenParenToken = Some (mkToken 96 OpenBracketToken 13 14),
         argumentsElements = Some [argumentZ],
         argumentsCloseParenToken = Some (mkToken 97 CloseBracketToken 16 17)\<rparr>,
      nonterminalQuestionToken = None\<rparr>"

definition productionS :: Production where
  "productionS =
     \<lparr>nodeId = 85, pos = 8, endPos = 17,
      productionName = mkIdentifier 86 ''S'' 8 9,
      parameterList = None,
      colonToken = Some (mkToken 87 ColonToken 10 11),
      body = Some (RightHandSideBody
        \<lparr>nodeId = 88, pos = 12, endPos = 17,
         head = SymbolSpanNode \<lparr>nodeId = 89, pos = 12, endPos = 17\<rparr>
                  (Some (NonterminalNode nonterminalQ)) None,
         reference = None\<rparr>)\<rparr>"

definition fileQ :: SourceFile where
  "fileQ =
     \<lparr>nodeId = 98, pos = 0, endPos = 17, filename = ''q.grammar'',
      elements = [ProductionElement productionQ, ProductionElement productionS]\<rparr>"

definition bindingsQ :: BindingTable where
  "bindingsQ =
     emptyBindings
       \<lparr>parentChain := (\<lambda>n.
           if n = 81 then [ProductionRef productionQ, OtherRef SourceFile 98]
           else if n = 86 then [ProductionRef productionS, OtherRef SourceFile 98]
           else if n = 91 then [NonterminalRef nonterminalQ, OtherRef SymbolSpan 89,
                                OtherRef RightHandSide 88, ProductionRef productionS,
                                OtherRef SourceFile 98]
           else if n = 93 then [OtherRef ArgumentList 92, NonterminalRef nonterminalQ,
                                OtherRef SymbolSpan 89, OtherRef RightHandSide 88,
                                ProductionRef productionS, OtherRef SourceFile 98]
           else if n = 95 then [ArgumentRef argumentZ, OtherRef ArgumentList 92,
                                NonterminalRef nonterminalQ, OtherRef SymbolSpan 89,
                                OtherRef RightHandSide 88, ProductionRef productionS,
                                OtherRef SourceFile 98]
           else []),
        symbolMap := [80 \<mapsto> symbolQ,
                      85 \<mapsto> \<lparr>symbolId = 4, symbolName = ''S'', symbolKind = ProductionKind\<rparr>],
        globalScope := [''Q'' \<mapsto> symbolQ,
                        ''S'' \<mapsto> \<lparr>symbolId = 4, symbolName = ''S'', symbolKind = ProductionKind\<rparr>],
        declarationMap := (\<lambda>s. if s = 3 then [productionQ]
                                else if s = 4 then [productionS] else [])\<rparr>"

text \<open>
  Two declarations of one production, each with a parameter that the other lacks:
  \<^verbatim>\<open>T[a, b, ] :\<close>, the canonical one, whose third parameter has no name, and
  \<^verbatim>\<open>T[b, c, undefined] :\<close>.
\<close>

definition symbolT :: Symbol where
  "symbolT = \<lparr>symbolId = 6, symbolName = ''T'', symbolKind = ProductionKind\<rparr>"

definition namelessT :: Parameter where
  "namelessT =
     \<lparr>nodeId = 119, pos = 8, endPos = 8,
      parameterName = \<lparr>nodeId = 120, pos = 8, endPos = 8, identifierText = None\<rparr>\<rparr>"

definition canonicalT :: Production where
  "canonicalT =
     \<lparr>nodeId = 110, pos = 0, endPos = 11,
      productionName = mkIdentifier 111 ''T'' 0 1,
      parameterList = Some (mkParameterList 112 1 9
         [mkParameter 115 (mkIdentifier 116 ''a'' 2 3), mkParameter 117 (mkIdentifier 118 ''b'' 5 6),
          namelessT]),
      colonToken = Some (mkToken 121 ColonToken 10 11),
      body = None\<rparr>"

definition secondT :: Production where
  "secondT =
     \<lparr>nodeId = 130, pos = 12, endPos = 33,
      productionName = mkIdentifier 131 ''T'' 12 13,
      parameterList = Some (mkParameterList 132 13 31
         [mkParameter 135 (mkIdentifier 136 ''b'' 14 15), mkParameter 137 (mkIdentifier 138 ''c'' 17 18),
          mkParameter 139 (mkIdentifier 140 ''undefined'' 20 29)]),
      colonToken = Some (mkToken 141 ColonToken 32 33),
      body = None\<rparr>"

definition fileT :: SourceFile where
  "fileT =
     \<lparr>nodeId = 150, pos = 0, endPos = 33, filename = ''t.grammar'',
      elements = [ProductionElement canonicalT, ProductionElement secondT]\<rparr>"

definition parameterSymbolsT :: "string \<Rightarrow> Symbol option" where
  "parameterSymbolsT =
     [''a'' \<mapsto> \<lparr>symbolId = 7, symbolName = ''a'', symbolKind = ParameterKind\<rparr>,
      ''b'' \<mapsto> \<lparr>symbolId = 8, symbolName = ''b'', symbolKind = ParameterKind\<rparr>,
      ''c'' \<mapsto> \<lparr>symbolId = 9, symbolName = ''c'', symbolKind = ParameterKind\<rparr>,
      ''undefined'' \<mapsto> \<lparr>symbolId = 10, symbolName = ''undefined'', symbolKind = ParameterKind\<rparr>]"

definition bindingsT :: BindingTable where
  "bindingsT =
     emptyBindings
       \<lparr>parentChain := (\<lambda>n.
           if n = 111 then [ProductionRef canonicalT, OtherRef SourceFile 150]
           else if n = 131 then [ProductionRef secondT, OtherRef SourceFile 150]
           else if n = 136 then [ParameterRef (mkParameter 135 (mkIdentifier 136 ''b'' 14 15)),
                                 OtherRef ParameterList 132, ProductionRef secondT,
                                 OtherRef SourceFile 150]
           else if n = 138 then [ParameterRef (mkParameter 137 (mkIdentifier 138 ''c'' 17 18)),
                                 OtherRef ParameterList 132, ProductionRef secondT,
                                 OtherRef SourceFile 150]
           else if n = 140 then [ParameterRef (mkParameter 139 (mkIdentifier 140 ''undefined'' 20 29)),
                                 OtherRef ParameterList 132, ProductionRef secondT,
                                 OtherRef SourceFile 150]
           else []),
        symbolMap := [110 \<mapsto> symbolT, 130 \<mapsto> symbolT,
                      135 \<mapsto> \<lparr>symbolId = 8, symbolName = ''b'', symbolKind = ParameterKind\<rparr>,
                      137 \<mapsto> \<lparr>symbolId = 9, symbolName = ''c'', symbolKind = ParameterKind\<rparr>,
                      139 \<mapsto> \<lparr>symbolId = 10, symbolName = ''undefined'', symbolKind = ParameterKind\<rparr>],
        globalScope := [''T'' \<mapsto> symbolT],
        parameterScope := (\<lambda>s. if s = 6 then parameterSymbolsT else Map.empty),
        declarationMap := (\<lambda>s. if s = 6 then [canonicalT, secondT] else [])\<rparr>"

text \<open>
  The production \<^verbatim>\<open>U[a, b] :\<close> and, in the production \<^verbatim>\<open>W : U[+a, +a, +z]\<close>, the
  nonterminal that passes it \<open>a\<close> twice and \<open>z\<close>, and nothing for \<open>b\<close>.
\<close>

definition symbolU :: Symbol where
  "symbolU = \<lparr>symbolId = 11, symbolName = ''U'', symbolKind = ProductionKind\<rparr>"

definition productionU :: Production where
  "productionU =
     \<lparr>nodeId = 160, pos = 0, endPos = 9,
      productionName = mkIdentifier 161 ''U'' 0 1,
      parameterList = Some (mkParameterList 162 1 7
         [mkParameter 165 (mkIdentifier 166 ''a'' 2 3), mkParameter 167 (mkIdentifier 168 ''b'' 5 6)]),
      colonToken = Some (mkToken 169 ColonToken 8 9),
      body = None\<rparr>"

definition mkArgument :: "nat \<Rightarrow> string \<Rightarrow> nat \<Rightarrow> Argument" where
  "mkArgument i t p =
     \<lparr>nodeId = i, pos = p, endPos = p + 2,
      argumentOperatorToken = Some (mkToken (i + 1) PlusToken p (p + 1)),
      argumentName = mkIdentifier (i + 2) t (p + 1) (p + 2)\<rparr>"

definition nonterminalU :: Nonterminal where
  "nonterminalU =
     \<lparr>nodeId = 175, pos = 14, endPos = 27,
      nonterminalName = mkIdentifier 176 ''U'' 14 15,
      argumentList = Some
        \<lparr>nodeId = 177, pos = 15, endPos = 27,
         argumentsOpenParenToken = Some (mkToken 178 OpenBracketToken 15 16),
         argumentsElements = Some [mkArgument 180 ''a'' 16, mkArgument 183 ''a'' 20,
                                   mkArgument 186 ''z'' 24],
         argumentsCloseParenToken = Some (mkToken 179 CloseBracketToken 26 27)\<rparr>,
      nonterminalQuestionToken = None\<rparr>"

definition productionW :: Production where
  "productionW =
     \<lparr>nodeId = 170, pos = 10, endPos = 27,
      productionName = mkIdentifier 171 ''W'' 10 11,
      parameterList = None,
      colonToken = Some (mkToken 172 ColonToken 12 13),
      body = Some (RightHandSideBody
        \<lparr>nodeId = 173, pos = 14, endPos = 27,
         head = SymbolSpanNode \<lparr>nodeId = 174, pos = 14, endPos = 27\<rparr>
                  (Some (NonterminalNode nonterminalU)) None,
         reference = None\<rparr>)\<rparr>"

definition fileU :: SourceFile where
  "fileU =
     \<lparr>nodeId = 190, pos = 0, endPos = 27, filename = ''u.grammar'',
      elements = [ProductionElement productionU, ProductionElement productionW]\<rparr>"

definition ancestorsU :: "NodeRef list" where
  "ancestorsU = [OtherRef ArgumentList 177, NonterminalRef nonterminalU, OtherRef SymbolSpan 174,
                 OtherRef RightHandSide 173, ProductionRef productionW, OtherRef SourceFile 190]"

definition bindingsU :: BindingTable where
  "bindingsU =
     emptyBindings
       \<lparr>parentChain := (\<lambda>n.
           if n = 161 then [ProductionRef productionU, OtherRef SourceFile 190]
           else if n = 171 then [ProductionRef productionW, OtherRef SourceFile 190]
           else if n = 176 then tl ancestorsU
           else if n = 180 \<or> n = 183 \<or> n = 186 then ancestorsU
           else if n = 182 then ArgumentRef (mkArgument 180 ''a'' 16) # ancestorsU
           else if n = 185 then ArgumentRef (mkArgument 183 ''a'' 20) # ancestorsU
           else if n = 188 then ArgumentRef (mkArgument 186 ''z'' 24) # ancestorsU
           else []),
        symbolMap := [160 \<mapsto> symbolU,
                      170 \<mapsto> \<lparr>symbolId = 12, symbolName = ''W'', symbolKind = ProductionKind\<rparr>,
                      165 \<mapsto> \<lparr>symbolId = 13, symbolName = ''a'', symbolKind = ParameterKind\<rparr>,
                      167 \<mapsto> \<lparr>symbolId = 14, symbolName = ''b'', symbolKind = ParameterKind\<rparr>],
        globalScope := [''U'' \<mapsto> symbolU,
                        ''W'' \<mapsto> \<lparr>symbolId = 12, symbolName = ''W'', symbolKind = ProductionKind\<rparr>],
        parameterScope := (\<lambda>s. if s = 11
           then [''a'' \<mapsto> \<lparr>symbolId = 13, symbolName = ''a'', symbolKind = ParameterKind\<rparr>,
                 ''b'' \<mapsto> \<lparr>symbolId = 14, symbolName = ''b'', symbolKind = ParameterKind\<rparr>]
           else Map.empty),
        declarationMap := (\<lambda>s. if s = 11 then [productionU]
                                else if s = 12 then [productionW] else [])\<rparr>"

text \<open>
  The production \<^verbatim>\<open>R : `a` Q[+z] #My Label\<close> and its alternative, which carries a link
  reference, and the same alternative without the link reference.
\<close>

definition headR :: SyntaxNode where
  "headR =
     SymbolSpanNode \<lparr>nodeId = 102, pos = 4, endPos = 14\<rparr>
       (Some (TerminalNode (mkTerminal 103 ''a'' 4 7)))
       (Some (SymbolSpanNode \<lparr>nodeId = 104, pos = 8, endPos = 14\<rparr>
                (Some (NonterminalNode nonterminalQ)) None))"

definition labelledR :: RightHandSide where
  "labelledR =
     \<lparr>nodeId = 101, pos = 4, endPos = 24, head = headR,
      reference = Some \<lparr>nodeId = 105, pos = 15, endPos = 24, referenceText = Some ''My Label''\<rparr>\<rparr>"

definition unlabelledR :: RightHandSide where
  "unlabelledR = \<lparr>nodeId = 101, pos = 4, endPos = 14, head = headR, reference = None\<rparr>"

definition productionR :: Production where
  "productionR =
     \<lparr>nodeId = 100, pos = 0, endPos = 24,
      productionName = mkIdentifier 106 ''R'' 0 1,
      parameterList = None,
      colonToken = Some (mkToken 107 ColonToken 2 3),
      body = Some (RightHandSideBody labelledR)\<rparr>"

definition bindingsR :: BindingTable where
  "bindingsR =
     emptyBindings
       \<lparr>parentChain := (\<lambda>n. if n = 101 \<or> n = 106
                              then [ProductionRef productionR, OtherRef SourceFile 108] else []),
        symbolMap := [100 \<mapsto> \<lparr>symbolId = 5, symbolName = ''R'', symbolKind = ProductionKind\<rparr>],
        globalScope := [''R'' \<mapsto> \<lparr>symbolId = 5, symbolName = ''R'', symbolKind = ProductionKind\<rparr>],
        declarationMap := (\<lambda>s. if s = 5 then [productionR] else [])\<rparr>"

text \<open>
  The texts of three tokens, and a stand-in for the digest function that has the form
  of a SHA-1 digest in hexadecimal: forty characters, each a digit or a letter from
  \<open>a\<close> to \<open>f\<close>.
\<close>

definition sampleEnv :: DigestEnv where
  "sampleEnv =
     \<lparr>tokenToString = (\<lambda>k. if k = PlusToken then Some ''+''
                            else if k = TildeToken then Some ''~''
                            else if k = QuestionToken then Some ''?'' else None),
      forEachChild = (\<lambda>n. []),
      sha1Hex = (\<lambda>s. replicate 40 (''0123456789abcdef'' ! (length s mod 16)))\<rparr>"

section \<open>Notions of the statements\<close>

text \<open>The diagnostics that a step of the checker reports: the entries it appends to the sink.\<close>

definition reportsOf :: "(Checker \<Rightarrow> Checker) \<Rightarrow> Checker \<Rightarrow> DiagnosticEntry list" where
  "reportsOf step c = drop (length (entries (diagnostics c))) (entries (diagnostics (step c)))"

text \<open>A diagnostic reported on a node, in the current file of the checker.\<close>

definition entryOn ::
  "Checker \<Rightarrow> nat \<Rightarrow> Diagnostic \<Rightarrow> DiagnosticArgument list \<Rightarrow> DiagnosticEntry" where
  "entryOn c node m args =
     \<lparr>entryFile = currentFile (diagnostics c), entryLocation = AtNode node,
      entryMessage = m, entryArguments = args\<rparr>"

definition duplicateTerminal :: "Checker \<Rightarrow> Terminal \<Rightarrow> DiagnosticEntry" where
  "duplicateTerminal c t =
     entryOn c (nodeId t) Duplicate_terminal_0 [TextArgument (terminalText t)]"

text \<open>
  The text of a terminal as the key under which \<open>checkOneOfList\<close> looks it up and
  enters it in its dictionary: a missing text is the key \<^verbatim>\<open>undefined\<close>.
\<close>

definition terminalKey :: "Terminal \<Rightarrow> string" where
  "terminalKey t = propertyKey (terminalText t)"

text \<open>
  What \<open>checkTerminal\<close> appends, written out, and the entries of the loop of
  \<open>checkOneOfList\<close> for the terminal at an index, with dictionary keys compared.
\<close>

definition terminalEntries :: "string option \<Rightarrow> Terminal \<Rightarrow> bool \<Rightarrow> DiagnosticEntry list" where
  "terminalEntries f t a =
     (case terminalQuestionToken t of
        Some q \<Rightarrow>
          if \<not> a \<or> kind q \<noteq> QuestionToken
          then [\<lparr>entryFile = f, entryLocation = AtNode (nodeId q), entryMessage = Unexpected_token_0,
                 entryArguments = [TokenArgument (kind q) False]\<rparr>]
          else if \<not> truthy (terminalText t)
          then [\<lparr>entryFile = f, entryLocation = AtNode (nodeId t), entryMessage = X0_expected,
                 entryArguments = [TokenArgument Terminal False]\<rparr>]
          else []
      | None \<Rightarrow>
          if \<not> truthy (terminalText t)
          then [\<lparr>entryFile = f, entryLocation = AtNode (nodeId t), entryMessage = X0_expected,
                 entryArguments = [TokenArgument Terminal False]\<rparr>]
          else [])"

definition oneOfListEntry ::
  "Checker \<Rightarrow> (string \<Rightarrow> bool option) \<Rightarrow> Terminal list \<Rightarrow> nat \<Rightarrow> DiagnosticEntry list" where
  "oneOfListEntry c terminalSet ts i =
     (if propertyKey (terminalText (ts ! i))
           \<in> dom terminalSet \<union> (\<lambda>t. propertyKey (terminalText t)) ` set (take i ts)
      then [duplicateTerminal c (ts ! i)]
      else terminalEntries (currentFile (diagnostics c)) (ts ! i) False)"

text \<open>
  A step of the checker that only reports diagnostics with messages in \<open>M\<close> and caches
  symbols: from \<open>c\<close> it leads to a checker that differs from \<open>c\<close> in entries appended to
  the sink, all with a message in \<open>M\<close>, and in the symbol map.
\<close>

definition reportsOnly :: "Diagnostic set \<Rightarrow> Checker \<Rightarrow> Checker \<Rightarrow> bool" where
  "reportsOnly M c c' =
     (checkedFileSet c' = checkedFileSet c \<and> sourceFile c' = sourceFile c
      \<and> noStrictParametricProductions c' = noStrictParametricProductions c
      \<and> productionParametersByName c' = productionParametersByName c
      \<and> cancellationRequested c' = cancellationRequested c
      \<and> parentChain (bindings c') = parentChain (bindings c)
      \<and> globalScope (bindings c') = globalScope (bindings c)
      \<and> parameterScope (bindings c') = parameterScope (bindings c)
      \<and> declarationMap (bindings c') = declarationMap (bindings c)
      \<and> currentFile (diagnostics c') = currentFile (diagnostics c)
      \<and> take (length (entries (diagnostics c))) (entries (diagnostics c')) = entries (diagnostics c)
      \<and> entryMessage ` set (drop (length (entries (diagnostics c))) (entries (diagnostics c')))
            \<subseteq> M)"

text \<open>The messages that the check of an identifier reports, and those of a parameter or argument list.\<close>

definition identifierMessages :: "Diagnostic set" where
  "identifierMessages = {X0_expected, Duplicate_identifier_0, Cannot_find_name_0,
     Production_0_does_not_have_a_parameter_named_1}"

definition listMessages :: "Diagnostic set" where
  "listMessages = identifierMessages \<union> {Obsolete_0, Unexpected_token_0}"

text \<open>
  The parameter names of a production as \<open>getProductionParametersByName\<close> collects
  them: the names of its parameters that are not empty.
\<close>

definition parameterNames :: "Production \<Rightarrow> string set" where
  "parameterNames node =
     set (filter (\<lambda>t. t \<noteq> [])
            (List.map_filter (\<lambda>p. identifierText (parameterName p)) (parametersOf node)))"

text \<open>
  The canonical declaration of a production: the first declaration of the symbol that
  \<open>checkIdentifier\<close> finds for its name.
\<close>

definition canonicalDeclaration :: "Checker \<Rightarrow> Production \<Rightarrow> Production option" where
  "canonicalDeclaration c node =
     (case checkIdentifier c (productionName node) of
        Returned symbol c1 \<Rightarrow>
          (case getDeclarations (bindings c1) symbol of [] \<Rightarrow> None | first # _ \<Rightarrow> Some first)
      | Thrown e c1 \<Rightarrow> None)"

text \<open>
  The memo of parameter names agrees with a production when it has no entry for it, or
  one with the names of its parameters. (The memo is emptied for each file and filled
  by \<open>getProductionParametersByName\<close> only.)
\<close>

definition memoAgrees :: "Checker \<Rightarrow> Production \<Rightarrow> bool" where
  "memoAgrees c node =
     (case productionParametersByName c of
        None \<Rightarrow> True
      | Some memo \<Rightarrow>
         (case memo (nodeId node) of
            None \<Rightarrow> True
          | Some names \<Rightarrow> dom names = parameterNames node))"

text \<open>The missing-parameter diagnostic on a node, for a parameter of a declaration of \<open>node\<close>.\<close>

definition missingParameter :: "Checker \<Rightarrow> Production \<Rightarrow> nat \<Rightarrow> Parameter \<Rightarrow> DiagnosticEntry" where
  "missingParameter c node reportAt p =
     entryOn c reportAt
       Production_0_is_missing_parameter_1_All_definitions_of_production_0_must_specify_the_same_formal_parameters
       [TextArgument (identifierText (productionName node)),
        TextArgument (identifierText (parameterName p))]"

definition isMissingParameter :: "DiagnosticEntry \<Rightarrow> bool" where
  "isMissingParameter e = (entryMessage e =
     Production_0_is_missing_parameter_1_All_definitions_of_production_0_must_specify_the_same_formal_parameters)"

text \<open>A checker with entries appended to its sink.\<close>

definition appended :: "Checker \<Rightarrow> DiagnosticEntry list \<Rightarrow> Checker" where
  "appended c es = c\<lparr>diagnostics := (diagnostics c)\<lparr>entries := entries (diagnostics c) @ es\<rparr>\<rparr>"








text \<open>The characters of a lower-case hexadecimal string.\<close>

definition hexDigits :: "char set" where
  "hexDigits = set ''0123456789abcdef''"
section \<open>Proofs\<close>

subsection \<open>Dictionary\<close>

lemma keys_update:
  "map fst (AList.update k v al)
     = (if k \<in> set (map fst al) then map fst al else map fst al @ [k])"
  by (induction al) auto

lemma set_keeps_prototype: "prototype (Dictionary_set d k v) = prototype d"
  by (simp add: Dictionary_set_def assignProperty_def)

lemma set_own_keys:
  assumes "enumerable (prototype d) = []" "\<not> inheritsObject (prototype d)"
  shows "map fst (own (Dictionary_set d k v))
           = (if k \<in> set (map fst (own d)) then map fst (own d) else map fst (own d) @ [k])"
  using assms by (simp add: Dictionary_set_def assignProperty_def keys_update)

lemma set_own_map:
  assumes "enumerable (prototype d) = []" "\<not> inheritsObject (prototype d)"
  shows "map_of (own (Dictionary_set d k v)) = (map_of (own d))(k \<mapsto> v)"
  using assms by (simp add: Dictionary_set_def assignProperty_def update_conv')

lemma fold_set_keys:
  assumes "enumerable (prototype d) = []" "\<not> inheritsObject (prototype d)"
  shows "set (map fst (own (fold (\<lambda>kv d. Dictionary_set d (fst kv) (snd kv)) kvs d)))
           = set (map fst (own d)) \<union> fst ` set kvs"
  using assms
proof (induction kvs arbitrary: d)
  case Nil
  then show ?case by simp
next
  case (Cons kv kvs)
  have p: "enumerable (prototype (Dictionary_set d (fst kv) (snd kv))) = []"
          "\<not> inheritsObject (prototype (Dictionary_set d (fst kv) (snd kv)))"
    using Cons.prems by (simp_all add: set_keeps_prototype)
  show ?case using Cons.IH[OF p] Cons.prems
    by (auto simp: set_own_keys)
qed

lemma fold_set_distinct:
  assumes "enumerable (prototype d) = []" "\<not> inheritsObject (prototype d)"
    and "distinct (map fst (own d))"
  shows "distinct (map fst (own (fold (\<lambda>kv d. Dictionary_set d (fst kv) (snd kv)) kvs d)))"
  using assms
proof (induction kvs arbitrary: d)
  case Nil
  then show ?case by simp
next
  case (Cons kv kvs)
  have p: "enumerable (prototype (Dictionary_set d (fst kv) (snd kv))) = []"
          "\<not> inheritsObject (prototype (Dictionary_set d (fst kv) (snd kv)))"
    using Cons.prems by (simp_all add: set_keeps_prototype)
  have q: "distinct (map fst (own (Dictionary_set d (fst kv) (snd kv))))"
    using Cons.prems by (simp add: set_own_keys)
  show ?case using Cons.IH[OF p q] by simp
qed

lemma fold_set_map:
  assumes "enumerable (prototype d) = []" "\<not> inheritsObject (prototype d)"
  shows "map_of (own (fold (\<lambda>kv d. Dictionary_set d (fst kv) (snd kv)) kvs d))
           = map_of (own d) ++ map_of (rev kvs)"
  using assms
proof (induction kvs arbitrary: d)
  case Nil
  then show ?case by simp
next
  case (Cons kv kvs)
  have p: "enumerable (prototype (Dictionary_set d (fst kv) (snd kv))) = []"
          "\<not> inheritsObject (prototype (Dictionary_set d (fst kv) (snd kv)))"
    using Cons.prems by (simp_all add: set_keeps_prototype)
  obtain k v where kv: "kv = (k, v)" by (cases kv)
  have e: "map_of (own d) ++ map_of (rev (kv # kvs))
             = (map_of (own d))(k \<mapsto> v) ++ map_of (rev kvs)"
    by (rule ext) (simp add: kv map_add_def split: option.splits)
  have "map_of (own (fold (\<lambda>kv d. Dictionary_set d (fst kv) (snd kv)) (kv # kvs) d))
          = map_of (own (Dictionary_set d k v)) ++ map_of (rev kvs)"
    using Cons.IH[OF p] by (simp only: kv fold_simps fst_conv snd_conv)
  also have "\<dots> = (map_of (own d))(k \<mapsto> v) ++ map_of (rev kvs)"
    by (simp only: set_own_map[OF Cons.prems])
  finally show ?case by (simp only: e)
qed

lemma set_propertyOrder: "set (propertyOrder ks) = set ks"
  by (auto simp: propertyOrder_def)

lemma distinct_propertyOrder: "distinct ks \<Longrightarrow> distinct (propertyOrder ks)"
  by (auto simp: propertyOrder_def)

lemma keys_own: "Dictionary_keys d = propertyOrder (map fst (own d))"
proof -
  have a: "filter (Dictionary_has d) (propertyOrder (map fst (own d)))
             = propertyOrder (map fst (own d))"
    by (simp add: filter_id_conv set_propertyOrder Dictionary_has_def)
  have b: "filter (Dictionary_has d) (filter (\<lambda>k. k \<notin> set (map fst (own d))) xs) = []" for xs
    by (simp add: filter_empty_conv Dictionary_has_def)
  show ?thesis
    unfolding Dictionary_keys_def forIn_def filter_append a b by simp
qed

lemma forEach_keys:
  "Dictionary_forEach d (\<lambda>v k visited. visited @ [k]) acc = acc @ Dictionary_keys d"
proof -
  have "fold (\<lambda>key s. if P key then s @ [key] else s) ks acc = acc @ filter P ks" for P ks
    by (induction ks arbitrary: acc) simp_all
  then show ?thesis by (simp add: Dictionary_forEach_def Dictionary_keys_def)
qed

text \<open>
  C9. On a runtime with \<^verbatim>\<open>Object.create\<close>, a Dictionary made by \<^verbatim>\<open>new Dictionary()\<close> has
  no key at all: \<open>Dictionary_has\<close> is false and \<open>Dictionary_get\<close> is \<open>undefined\<close> for every
  name, the names of the built-in object members included, and nothing is enumerated.
  After any sequence \<open>kvs\<close> of \<open>Dictionary_set\<close> calls a name is a key exactly when it was
  set, \<open>Dictionary_get\<close> gives the value set last, and keys, values, entries and forEach
  visit each key that was set once, and no other.
\<close>

theorem Dictionary_no_inherited_members:
  assumes "hasObjectCreate rt"
  shows "(let d0 = Dictionary_new rt None;
              d = fold (\<lambda>kv d. Dictionary_set d (fst kv) (snd kv)) kvs d0
          in \<not> Dictionary_has d0 name \<and> Dictionary_get d0 name = None
           \<and> Dictionary_keys d0 = [] \<and> Dictionary_values d0 = [] \<and> Dictionary_entries d0 = []
           \<and> Dictionary_has d name = (name \<in> fst ` set kvs)
           \<and> Dictionary_get d name = map_of (rev kvs) name
           \<and> set (Dictionary_keys d) = fst ` set kvs \<and> distinct (Dictionary_keys d)
           \<and> Dictionary_values d = map (Dictionary_get d) (Dictionary_keys d)
           \<and> Dictionary_entries d = map (\<lambda>key. (key, Dictionary_get d key)) (Dictionary_keys d)
           \<and> Dictionary_forEach d (\<lambda>v key visited. visited @ [key]) [] = Dictionary_keys d)"
proof -
  define d0 :: "'a Dictionary" where "d0 = Dictionary_new rt None"
  define d where "d = fold (\<lambda>kv d. Dictionary_set d (fst kv) (snd kv)) kvs d0"
  have own0: "own d0 = []" by (simp add: d0_def Dictionary_new_def)
  have p0: "enumerable (prototype d0) = []" "\<not> inheritsObject (prototype d0)"
    using assms by (simp_all add: d0_def Dictionary_new_def createEmptyPrototype_def)
  have ks: "set (map fst (own d)) = fst ` set kvs"
    unfolding d_def using fold_set_keys[OF p0] own0 by simp
  have dist: "distinct (map fst (own d))"
    unfolding d_def using fold_set_distinct[OF p0] own0 by simp
  have mp: "map_of (own d) = map_of (rev kvs)"
    unfolding d_def using fold_set_map[OF p0] own0 by simp
  have has: "Dictionary_has d name = (name \<in> fst ` set kvs)"
    using ks by (simp add: Dictionary_has_def)
  have get: "Dictionary_get d name = map_of (rev kvs) name"
  proof (cases "name \<in> fst ` set kvs")
    case True
    then show ?thesis using has mp by (simp add: Dictionary_get_def)
  next
    case False
    then have "map_of (rev kvs) name = None" by (simp add: map_of_eq_None_iff)
    then show ?thesis using False has by (simp add: Dictionary_get_def)
  qed
  have fresh: "\<not> Dictionary_has d0 name" "Dictionary_get d0 name = None"
      "Dictionary_keys d0 = []" "Dictionary_values d0 = []" "Dictionary_entries d0 = []"
    using own0 p0 by (simp_all add: Dictionary_has_def Dictionary_get_def Dictionary_keys_def
        Dictionary_values_def Dictionary_entries_def forIn_def propertyOrder_def)
  have "Dictionary_values d = map (Dictionary_get d) (Dictionary_keys d)"
       "Dictionary_entries d = map (\<lambda>key. (key, Dictionary_get d key)) (Dictionary_keys d)"
    by (simp_all add: Dictionary_values_def Dictionary_entries_def Dictionary_keys_def)
  moreover have "Dictionary_forEach d (\<lambda>v key visited. visited @ [key]) [] = Dictionary_keys d"
    using forEach_keys[of d "[]"] by simp
  ultimately show ?thesis
    using fresh has get ks dist unfolding Let_def d0_def[symmetric] d_def[symmetric]
    by (simp add: keys_own set_propertyOrder distinct_propertyOrder)
qed

theorem Dictionary_no_inherited_members_witness:
  "(let d0 = Dictionary_new \<lparr>hasObjectCreate = True, hasObjectFreeze = True\<rparr> None;
        d = Dictionary_set (Dictionary_set d0 ''toString'' (1::nat)) ''valueOf'' 2
    in \<not> Dictionary_has d0 ''toString'' \<and> Dictionary_get d0 ''toString'' = None
     \<and> Dictionary_keys d0 = []
     \<and> Dictionary_has d ''toString'' \<and> \<not> Dictionary_has d ''constructor''
     \<and> Dictionary_get d ''toString'' = Some 1
     \<and> set (Dictionary_keys d) = {''toString'', ''valueOf''})"
  using Dictionary_no_inherited_members
    [where rt = "\<lparr>hasObjectCreate = True, hasObjectFreeze = True\<rparr>"
       and name = "''toString''" and kvs = "[(''toString'', 1::nat), (''valueOf'', 2)]"]
    Dictionary_no_inherited_members
    [where rt = "\<lparr>hasObjectCreate = True, hasObjectFreeze = True\<rparr>"
       and name = "''constructor''" and kvs = "[(''toString'', 1::nat), (''valueOf'', 2)]"]
  by (simp add: Let_def)

subsection \<open>Evaluation on the sample grammars\<close>

lemma andThen_Returned:
  "andThen r f = Returned u c' \<Longrightarrow> \<exists>x c1. r = Returned x c1 \<and> f x c1 = Returned u c'"
  by (cases r) simp_all

lemmas sample_defs =
  mkToken_def mkIdentifier_def mkTerminal_def mkParameter_def mkParameterList_def
  emptyBindings_def newChecker_def productionWithoutBody_def sampleOneOfList_def
  sampleDefine_def sampleProduction_def sampleFile_def sampleBindings_def noSymbols_def
  otherFile_def checkerIn_def symbolP_def canonicalP_def secondP_def fileP_def bindingsP_def
  symbolQ_def productionQ_def argumentZ_def nonterminalQ_def productionS_def fileQ_def
  bindingsQ_def headR_def labelledR_def unlabelledR_def productionR_def bindingsR_def
  sampleEnv_def undefinedOneOfList_def
  symbolT_def namelessT_def canonicalT_def secondT_def fileT_def parameterSymbolsT_def bindingsT_def
  symbolU_def productionU_def mkArgument_def nonterminalU_def productionW_def fileU_def
  ancestorsU_def bindingsU_def

lemmas checker_defs =
  checkSourceFile_def preprocessSourceElement_def preprocessDefine_def checkGrammarDefine_def
  checkSourceElement_def reportInvalidSourceElement_def checkProduction_def
  checkGrammarProduction_def bodyKind_def checkProductionNonStrict_def checkProductionStrict_def
  checkIdentifier_def checkGrammarIdentifier_def checkIdentifier_argument_def cacheSymbol_def
  resolveSymbol_def checkParameterList_def checkGrammarParameterList_def checkParameter_def
  parametersOf_def parametersByName_def getProductionParametersByName_def
  reportMissingParameters_def checkOneOfList_def checkGrammarOneOfList_def checkTerminal_def
  checkGrammarTerminal_def checkGrammarOptionalSymbol_def checkRightHandSideList_def
  checkGrammarRightHandSideList_def checkRightHandSide_def checkLinkReference_def
  checkGrammarLinkReference_def checkNonterminal_def checkNonterminalStrict_def
  checkNonterminalNonStrict_def checkArgumentList_def checkGrammarArgumentList_def
  checkArgument_def checkGrammarArgument_def checkParameters_def
  reportGrammarError_def reportGrammarErrorForNode_def diagnostics_reportNode_def
  report_def reportNode_def setSourceFile_def truthy_def propertyKey_def
  getParent_def getAncestor_def getSymbol_def setSymbol_def getDeclarations_def
  bindings_resolveSymbol_def enclosingProduction_def

subsection \<open>Source files\<close>

text \<open>
  C3. A call of \<open>checkSourceFile\<close> on a file after a call on that file has returned
  returns at once: it leaves the checker, hence its diagnostics, as they were.
\<close>

theorem checkSourceFile_idempotent:
  assumes "checkSourceFile symbols c file = Returned u c'"
  shows "checkSourceFile symbols c' file = Returned () c'
         \<and> entries (diagnostics (stateOf (checkSourceFile symbols c' file)))
             = entries (diagnostics c')"
proof (cases "checkedFileSet c (filename file)")
  case (Some b)
  then have "c' = c" using assms by (simp add: checkSourceFile_def)
  then show ?thesis using Some by (simp add: checkSourceFile_def)
next
  case None
  then have "checkedFileSet c' (filename file) = Some True"
    using assms
    by (auto simp: checkSourceFile_def Let_def split: if_splits dest!: andThen_Returned)
  then show ?thesis by (simp add: checkSourceFile_def)
qed

lemma sampleFile_checked:
  "checkSourceFile noSymbols (newChecker sampleBindings) sampleFile
     = Returned () (stateOf (checkSourceFile noSymbols (newChecker sampleBindings) sampleFile))"
  by (simp add: checker_defs sample_defs SyntaxKind_defs Let_def)

lemma sampleFile_entries:
  "map entryLocation (entries (diagnostics
      (stateOf (checkSourceFile noSymbols (newChecker sampleBindings) sampleFile))))
     = [AtNode 41, AtNode 15, AtNode 16]"
  by (simp add: checker_defs sample_defs SyntaxKind_defs Let_def)

theorem checkSourceFile_idempotent_witness:
  "checkSourceFile noSymbols (newChecker sampleBindings) sampleFile
     = Returned () (stateOf (checkSourceFile noSymbols (newChecker sampleBindings) sampleFile))
   \<and> map entryLocation (entries (diagnostics
        (stateOf (checkSourceFile noSymbols (newChecker sampleBindings) sampleFile))))
       = [AtNode 41, AtNode 15, AtNode 16]
   \<and> checkSourceFile noSymbols
        (stateOf (checkSourceFile noSymbols (newChecker sampleBindings) sampleFile)) sampleFile
       = Returned () (stateOf (checkSourceFile noSymbols (newChecker sampleBindings) sampleFile))"
  using checkSourceFile_idempotent[OF sampleFile_checked] sampleFile_checked sampleFile_entries
  by simp

text \<open>
  C4. With cancellation requested, \<open>checkSourceFile\<close> on a file that is not yet
  checked throws the cancellation to its caller and leaves the checker as it was: no
  diagnostic is reported, those reported before are kept, and the file is not marked
  as checked.
\<close>

theorem checkSourceFile_cancelled:
  assumes "cancellationRequested c" and "checkedFileSet c (filename file) = None"
  shows "checkSourceFile symbols c file = Thrown OperationCanceled c
         \<and> entries (diagnostics (stateOf (checkSourceFile symbols c file)))
             = entries (diagnostics c)
         \<and> checkedFileSet (stateOf (checkSourceFile symbols c file)) (filename file) = None"
  using assms by (simp add: checkSourceFile_def)

theorem checkSourceFile_cancelled_witness:
  "(let c = (stateOf (checkSourceFile noSymbols (newChecker sampleBindings) sampleFile))
              \<lparr>cancellationRequested := True\<rparr>
    in cancellationRequested c \<and> checkedFileSet c (filename otherFile) = None
     \<and> checkSourceFile noSymbols c otherFile = Thrown OperationCanceled c
     \<and> map entryLocation (entries (diagnostics (stateOf (checkSourceFile noSymbols c otherFile))))
         = [AtNode 41, AtNode 15, AtNode 16]
     \<and> checkedFileSet (stateOf (checkSourceFile noSymbols c otherFile)) (filename otherFile) = None)"
proof -
  define c where "c = (stateOf (checkSourceFile noSymbols (newChecker sampleBindings) sampleFile))
                        \<lparr>cancellationRequested := True\<rparr>"
  have a: "cancellationRequested c" by (simp add: c_def)
  have b: "checkedFileSet c (filename otherFile) = None"
    by (simp add: c_def checker_defs sample_defs otherFile_def SyntaxKind_defs Let_def)
  have e: "map entryLocation (entries (diagnostics c)) = [AtNode 41, AtNode 15, AtNode 16]"
    using sampleFile_entries by (simp add: c_def)
  show ?thesis
    using checkSourceFile_cancelled[OF a b, of noSymbols] a b e
    unfolding Let_def c_def[symmetric] by simp
qed

text \<open>
  C8. When \<open>checkSourceFile\<close> returns, the strictness flag is what it was when the call
  was entered, whatever the directives of the file did to it; so the check of the
  next file starts from that value, and ends with it.
\<close>

theorem checkSourceFile_restores_strictness:
  assumes "checkSourceFile symbols c file = Returned u c'"
    and "checkSourceFile symbols c' sibling = Returned v c''"
  shows "noStrictParametricProductions c' = noStrictParametricProductions c
         \<and> noStrictParametricProductions c'' = noStrictParametricProductions c"
proof -
  have one: "noStrictParametricProductions b = noStrictParametricProductions a"
    if "checkSourceFile symbols a f = Returned w b" for a b f w
    using that
    by (auto simp: checkSourceFile_def Let_def split: if_splits dest!: andThen_Returned)
  show ?thesis using one[OF assms(1)] one[OF assms(2)] by simp
qed

lemma otherFile_checked:
  "checkSourceFile noSymbols
     (stateOf (checkSourceFile noSymbols (newChecker sampleBindings) sampleFile)) otherFile
     = Returned () (stateOf (checkSourceFile noSymbols
         (stateOf (checkSourceFile noSymbols (newChecker sampleBindings) sampleFile)) otherFile))"
  by (simp add: checker_defs sample_defs otherFile_def SyntaxKind_defs Let_def)

lemma sampleFile_toggles:
  "noStrictParametricProductions
     (fold (\<lambda>element c. preprocessSourceElement c element) (elements sampleFile)
        (newChecker sampleBindings))"
  by (simp add: checker_defs sample_defs SyntaxKind_defs Let_def)

theorem checkSourceFile_restores_strictness_witness:
  "\<not> noStrictParametricProductions (newChecker sampleBindings)
   \<and> noStrictParametricProductions
       (fold (\<lambda>element c. preprocessSourceElement c element) (elements sampleFile)
          (newChecker sampleBindings))
   \<and> checkSourceFile noSymbols (newChecker sampleBindings) sampleFile
       = Returned () (stateOf (checkSourceFile noSymbols (newChecker sampleBindings) sampleFile))
   \<and> \<not> noStrictParametricProductions
         (stateOf (checkSourceFile noSymbols (newChecker sampleBindings) sampleFile))
   \<and> \<not> noStrictParametricProductions
         (stateOf (checkSourceFile noSymbols
            (stateOf (checkSourceFile noSymbols (newChecker sampleBindings) sampleFile))
            otherFile))"
  using checkSourceFile_restores_strictness[OF sampleFile_checked otherFile_checked]
    sampleFile_toggles sampleFile_checked
  by (simp add: newChecker_def)

subsection \<open>The shape of a production\<close>

text \<open>
  With the colon present and the body missing or of a kind that is not allowed, the one
  diagnostic of the shape check is at the end of the parameter list (of the name, when
  there is none) plus the end of the colon.
\<close>

lemma checkGrammarProduction_position:
  assumes "colonToken node = Some colon"
    and "body node = None \<or> (\<exists>k. body node = Some (OtherBody k) \<and> k \<noteq> OneOfList \<and> k \<noteq> RightHandSide \<and> k \<noteq> RightHandSideList)"
  shows "entries (diagnostics (snd (checkGrammarProduction c node)))
           = entries (diagnostics c) @
             [\<lparr>entryFile = currentFile (diagnostics c),
               entryLocation = AtPosition
                  ((case parameterList node of Some l \<Rightarrow> endPos l
                    | None \<Rightarrow> endPos (productionName node)) + endPos colon),
               entryMessage = X0_expected,
               entryArguments = [ListArgument [OneOfList, RightHandSide]]\<rparr>]"
  using assms
  by (auto simp: checkGrammarProduction_def reportGrammarError_def report_def bodyKind_def Let_def
      split: option.splits)

text \<open>
  C7. For the production \<^verbatim>\<open>A :\<close> without a body, whose name ends at offset 1 and
  whose colon ends at offset 3, the diagnostic is at offset 4, the sum of the two, and
  not at the end of the colon.
\<close>

theorem checkGrammarProduction_missing_body_not_at_colon_end:
  "colonToken productionWithoutBody = Some (mkToken 3 ColonToken 2 3)
   \<and> body productionWithoutBody = None
   \<and> entries (diagnostics (snd (checkGrammarProduction (newChecker emptyBindings)
                                   productionWithoutBody)))
       = [\<lparr>entryFile = None, entryLocation = AtPosition 4, entryMessage = X0_expected,
           entryArguments = [ListArgument [OneOfList, RightHandSide]]\<rparr>]
   \<and> endPos (mkToken 3 ColonToken 2 3) = 3"
  by (simp add: checkGrammarProduction_def productionWithoutBody_def newChecker_def
      mkToken_def mkIdentifier_def reportGrammarError_def report_def)

subsection \<open>One-of lists\<close>

lemma checkTerminal_appends:
  "checkTerminal c t a =
     c\<lparr>diagnostics := (diagnostics c)\<lparr>entries := entries (diagnostics c)
          @ terminalEntries (currentFile (diagnostics c)) t a\<rparr>\<rparr>"
  by (simp add: checkTerminal_def checkGrammarOptionalSymbol_def checkGrammarTerminal_def
      reportGrammarErrorForNode_def reportNode_def terminalEntries_def
      split: option.splits)

lemma reportsOf_checkTerminal:
  "reportsOf (\<lambda>c. checkTerminal c t a) c = terminalEntries (currentFile (diagnostics c)) t a"
  by (simp add: reportsOf_def checkTerminal_appends)

lemma upt_0_Suc_map: "map f [0..<Suc n] = f 0 # map (\<lambda>i. f (Suc i)) [0..<n]"
  by (simp add: upt_conv_Cons map_Suc_upt[symmetric] del: upt_Suc)

lemma checkOneOfList_loop_entries:
  "checkOneOfList_loop c terminalSet ts =
     c\<lparr>diagnostics := (diagnostics c)\<lparr>entries := entries (diagnostics c) @
        concat (map (oneOfListEntry c terminalSet ts) [0..<length ts])\<rparr>\<rparr>"
proof (induction ts arbitrary: c terminalSet)
  case Nil
  show ?case by simp
next
  case (Cons t ts)
  show ?case
  proof (cases "terminalSet (propertyKey (terminalText t)) = None")
    case True
    define c1 where "c1 = checkTerminal c t False"
    define S1 where "S1 = terminalSet(propertyKey (terminalText t) \<mapsto> True)"
    have c1: "c1 = c\<lparr>diagnostics := (diagnostics c)\<lparr>entries := entries (diagnostics c)
          @ terminalEntries (currentFile (diagnostics c)) t False\<rparr>\<rparr>"
      by (simp add: c1_def checkTerminal_appends)
    have f: "currentFile (diagnostics c1) = currentFile (diagnostics c)"
      by (simp add: c1)
    have d: "duplicateTerminal c1 = duplicateTerminal c"
      by (rule ext) (simp add: duplicateTerminal_def entryOn_def f c1)
    have shift: "oneOfListEntry c1 S1 ts = (\<lambda>i. oneOfListEntry c terminalSet (t # ts) (Suc i))"
      by (rule ext) (auto simp: oneOfListEntry_def S1_def f d)
    have first: "oneOfListEntry c terminalSet (t # ts) 0
                   = terminalEntries (currentFile (diagnostics c)) t False"
      using True by (simp add: oneOfListEntry_def domIff)
    have step: "checkOneOfList_loop c terminalSet (t # ts) = checkOneOfList_loop c1 S1 ts"
      using True by (simp add: c1_def S1_def)
    show ?thesis
      unfolding step Cons.IH[of c1 S1] length_Cons upt_0_Suc_map shift
      by (simp add: first c1 del: upt_Suc)
  next
    case False
    define c1 where "c1 = diagnostics_reportNode c (nodeId t) Duplicate_terminal_0
                            [TextArgument (terminalText t)]"
    have c1: "c1 = c\<lparr>diagnostics := (diagnostics c)\<lparr>entries := entries (diagnostics c)
          @ [duplicateTerminal c t]\<rparr>\<rparr>"
      by (simp add: c1_def diagnostics_reportNode_def reportNode_def duplicateTerminal_def entryOn_def)
    have f: "currentFile (diagnostics c1) = currentFile (diagnostics c)"
      by (simp add: c1)
    have d: "duplicateTerminal c1 = duplicateTerminal c"
      by (rule ext) (simp add: duplicateTerminal_def entryOn_def f c1)
    have h: "propertyKey (terminalText t) \<in> dom terminalSet" using False by (simp add: domIff)
    have shift: "oneOfListEntry c1 terminalSet ts
                   = (\<lambda>i. oneOfListEntry c terminalSet (t # ts) (Suc i))"
      using h by (intro ext) (auto simp: oneOfListEntry_def f d)
    have first: "oneOfListEntry c terminalSet (t # ts) 0 = [duplicateTerminal c t]"
      using h by (simp add: oneOfListEntry_def)
    have step: "checkOneOfList_loop c terminalSet (t # ts) = checkOneOfList_loop c1 terminalSet ts"
      using False by (simp add: c1_def)
    show ?thesis
      unfolding step Cons.IH[of c1 terminalSet] length_Cons upt_0_Suc_map shift
      by (simp add: first c1 del: upt_Suc)
  qed
qed


text \<open>
  C10, as the code has it. For a one-of list with terminals: after the diagnostics of
  the shape check of the list come, terminal by terminal in order, one
  duplicate-terminal diagnostic on the terminal and nothing else when its key is the key
  of an earlier terminal of the list, and otherwise what one call of \<open>checkTerminal\<close>
  on it reports. The key of a terminal is its text as the dictionary takes it: the key
  of a terminal without a text is \<^verbatim>\<open>undefined\<close>, the key of a terminal with that
  word as its text.
\<close>

theorem checkOneOfList_duplicates:
  assumes "terminals node = Some ts"
  shows "entries (diagnostics (checkOneOfList c node))
           = entries (diagnostics c)
             @ reportsOf (\<lambda>c. snd (checkGrammarOneOfList c node)) c
             @ concat (map (\<lambda>i. if terminalKey (ts ! i) \<in> terminalKey ` set (take i ts)
                                then [duplicateTerminal c (ts ! i)]
                                else reportsOf (\<lambda>c. checkTerminal c (ts ! i) False) c)
                           [0..<length ts])"
proof -
  define c1 where "c1 = snd (checkGrammarOneOfList c node)"
  have c1_eq: "c1 = c\<lparr>diagnostics := (diagnostics c)\<lparr>entries := entries (diagnostics c)
              @ reportsOf (\<lambda>c. snd (checkGrammarOneOfList c node)) c\<rparr>\<rparr>"
    by (simp add: c1_def reportsOf_def checkGrammarOneOfList_def reportGrammarError_def report_def
        split: option.splits)
  have f: "currentFile (diagnostics c1) = currentFile (diagnostics c)" by (simp add: c1_eq)
  have e1: "entries (diagnostics c1) = entries (diagnostics c)
              @ reportsOf (\<lambda>c. snd (checkGrammarOneOfList c node)) c"
    by (simp add: c1_eq)
  have k: "(\<lambda>t. propertyKey (terminalText t)) = terminalKey"
    by (rule ext) (simp add: terminalKey_def)
  have each: "oneOfListEntry c1 Map.empty ts
        = (\<lambda>i. if terminalKey (ts ! i) \<in> terminalKey ` set (take i ts)
           then [duplicateTerminal c (ts ! i)]
           else reportsOf (\<lambda>c. checkTerminal c (ts ! i) False) c)"
    by (rule ext)
       (simp add: oneOfListEntry_def k reportsOf_checkTerminal f duplicateTerminal_def entryOn_def
          terminalKey_def[symmetric])
  have "checkOneOfList c node = checkOneOfList_loop c1 Map.empty ts"
    using assms(1) by (simp add: checkOneOfList_def c1_def)
  then have "entries (diagnostics (checkOneOfList c node))
      = entries (diagnostics c1) @ concat (map (oneOfListEntry c1 Map.empty ts) [0..<length ts])"
    by (simp add: checkOneOfList_loop_entries)
  then show ?thesis
    unfolding each e1 by simp
qed

lemma sampleOneOfList_terminals:
  "terminals sampleOneOfList
     = Some [mkTerminal 13 ''a'' 11 14, mkTerminal 14 ''b'' 15 18,
             mkTerminal 15 ''a'' 19 22, mkTerminal 16 [] 23 25]"
  by (simp add: sampleOneOfList_def)

text \<open>
  C10 as stated fails: in the list of a terminal without a text and the terminal
  \<^verbatim>\<open>`undefined`\<close>, the text of the second is the text of no earlier terminal, and yet
  the check reports it as a duplicate and does not validate it. (The first diagnostic
  is the validation of the first terminal, which has no text.)
\<close>

theorem checkOneOfList_duplicate_of_no_earlier_text:
  "terminals undefinedOneOfList
     = Some [\<lparr>nodeId = 203, pos = 7, endPos = 7, terminalText = None,
              terminalQuestionToken = None\<rparr>,
             mkTerminal 204 ''undefined'' 8 19]
   \<and> terminalText (mkTerminal 204 ''undefined'' 8 19) = Some ''undefined''
   \<and> terminalText (mkTerminal 204 ''undefined'' 8 19)
       \<notin> terminalText ` set [\<lparr>nodeId = 203, pos = 7, endPos = 7, terminalText = None,
                                terminalQuestionToken = None\<rparr>]
   \<and> entries (diagnostics (checkOneOfList (newChecker emptyBindings) undefinedOneOfList))
       = [\<lparr>entryFile = None, entryLocation = AtNode 203, entryMessage = X0_expected,
           entryArguments = [TokenArgument Terminal False]\<rparr>,
          \<lparr>entryFile = None, entryLocation = AtNode 204, entryMessage = Duplicate_terminal_0,
           entryArguments = [TextArgument (Some ''undefined'')]\<rparr>]
   \<and> reportsOf (\<lambda>c. checkTerminal c (mkTerminal 204 ''undefined'' 8 19) False)
        (newChecker emptyBindings) = []"
  by (simp add: reportsOf_def checker_defs sample_defs SyntaxKind_defs Let_def)

theorem checkOneOfList_duplicates_witness:
  "terminals sampleOneOfList
     = Some [mkTerminal 13 ''a'' 11 14, mkTerminal 14 ''b'' 15 18,
             mkTerminal 15 ''a'' 19 22, mkTerminal 16 [] 23 25]
   \<and> entries (diagnostics (checkOneOfList (newChecker emptyBindings) sampleOneOfList))
       = [\<lparr>entryFile = None, entryLocation = AtNode 15, entryMessage = Duplicate_terminal_0,
           entryArguments = [TextArgument (Some ''a'')]\<rparr>,
          \<lparr>entryFile = None, entryLocation = AtNode 16, entryMessage = X0_expected,
           entryArguments = [TokenArgument Terminal False]\<rparr>]"
  using checkOneOfList_duplicates[OF sampleOneOfList_terminals, of "newChecker emptyBindings"]
  by (simp add: sampleOneOfList_terminals reportsOf_def checker_defs sample_defs terminalKey_def
      duplicateTerminal_def entryOn_def upt_rec)
subsection \<open>Steps that only report\<close>

lemma take_prefix_conv: "(take (length xs) ys = xs) = (\<exists>es. ys = xs @ es)"
proof
  assume "take (length xs) ys = xs"
  then have "ys = xs @ drop (length xs) ys" by (metis append_take_drop_id)
  then show "\<exists>es. ys = xs @ es" ..
next
  assume "\<exists>es. ys = xs @ es"
  then show "take (length xs) ys = xs" by auto
qed

lemma reportsOnly_entries:
  assumes "reportsOnly M c c'"
  shows "entries (diagnostics c') = entries (diagnostics c) @ reportsOf (\<lambda>c. c') c"
    and "entryMessage ` set (reportsOf (\<lambda>c. c') c) \<subseteq> M"
  using assms by (simp_all add: reportsOnly_def reportsOf_def) (metis append_take_drop_id)

lemma reportsOnly_refl: "reportsOnly M c c"
  by (simp add: reportsOnly_def)

lemma reportsOnly_trans:
  assumes "reportsOnly M a b" and "reportsOnly M b c"
  shows "reportsOnly M a c"
proof -
  obtain e1 where e1: "entries (diagnostics b) = entries (diagnostics a) @ e1"
      "entryMessage ` set e1 \<subseteq> M"
    using reportsOnly_entries[OF assms(1)] by blast
  obtain e2 where e2: "entries (diagnostics c) = entries (diagnostics b) @ e2"
      "entryMessage ` set e2 \<subseteq> M"
    using reportsOnly_entries[OF assms(2)] by blast
  show ?thesis using assms e1 e2 by (auto simp: reportsOnly_def)
qed

lemma reportsOnly_mono: "reportsOnly M a b \<Longrightarrow> M \<subseteq> N \<Longrightarrow> reportsOnly N a b"
  by (auto simp: reportsOnly_def)

lemma reportsOnly_reportNode:
  "m \<in> M \<Longrightarrow> reportsOnly M c (diagnostics_reportNode c n m args)"
  by (simp add: reportsOnly_def diagnostics_reportNode_def reportNode_def)

lemma reportsOnly_reportGrammarError:
  "m \<in> M \<Longrightarrow> reportsOnly M c (snd (reportGrammarError c p m args))"
  by (simp add: reportsOnly_def reportGrammarError_def report_def)

lemma reportsOnly_reportGrammarErrorForNode:
  "m \<in> M \<Longrightarrow> reportsOnly M c (snd (reportGrammarErrorForNode c n m args))"
  by (simp add: reportsOnly_def reportGrammarErrorForNode_def reportNode_def)

lemma reportsOnly_cache:
  "reportsOnly M c c1 \<Longrightarrow> reportsOnly M c (stateOf (cacheSymbol c1 n s))"
  by (simp add: reportsOnly_def cacheSymbol_def setSymbol_def)

lemma reportsOnly_checkGrammarIdentifier:
  "X0_expected \<in> M \<Longrightarrow> reportsOnly M c (snd (checkGrammarIdentifier c n))"
  by (simp add: checkGrammarIdentifier_def reportsOnly_reportGrammarErrorForNode reportsOnly_refl)

lemma resolveSymbol_None:
  "resolveSymbol c l name k None = (bindings_resolveSymbol (bindings c) l name k, c)"
  by (simp add: resolveSymbol_def Let_def split: option.splits)

lemma resolveSymbol_Some:
  "resolveSymbol c (Some l) name k (Some m) =
     (bindings_resolveSymbol (bindings c) (Some l) name k,
      if bindings_resolveSymbol (bindings c) (Some l) name k = None
      then diagnostics_reportNode c (refId l) m [TextArgument name] else c)"
  by (simp add: resolveSymbol_def Let_def split: option.splits)

lemma reportsOnly_checkIdentifier_argument:
  "reportsOnly identifierMessages c (stateOf (checkIdentifier_argument c n a))"
  unfolding checkIdentifier_argument_def resolveSymbol_None
  by (simp add: identifierMessages_def reportsOnly_refl reportsOnly_reportNode reportsOnly_cache
      split: option.split NodeRef.split list.split)

lemma reportsOnly_checkIdentifier:
  "reportsOnly identifierMessages c (stateOf (checkIdentifier c n))"
proof -
  define c1 where "c1 = snd (checkGrammarIdentifier c n)"
  have g: "reportsOnly identifierMessages c c1"
    unfolding c1_def by (rule reportsOnly_checkGrammarIdentifier) (simp add: identifierMessages_def)
  have "reportsOnly identifierMessages c1 (stateOf (checkIdentifier c n))"
    unfolding checkIdentifier_def c1_def[symmetric] Let_def resolveSymbol_None resolveSymbol_Some
    by (simp add: reportsOnly_checkIdentifier_argument reportsOnly_refl reportsOnly_reportNode
        reportsOnly_cache identifierMessages_def[THEN eqset_imp_iff]
        split: option.split NodeRef.split)
  with g show ?thesis by (rule reportsOnly_trans)
qed


lemma reportsOnly_andThen:
  assumes "reportsOnly M c (stateOf r)"
    and "\<And>x c1. reportsOnly M c1 (stateOf (f x c1))"
  shows "reportsOnly M c (stateOf (andThen r f))"
proof (cases r)
  case (Returned x c1)
  then show ?thesis using assms(1) assms(2)[of c1 x] by (auto intro: reportsOnly_trans)
next
  case (Thrown e c1)
  then show ?thesis using assms(1) by simp
qed

lemma reportsOnly_forEachOf:
  assumes "\<And>c x. reportsOnly M c (stateOf (f c x))"
  shows "reportsOnly M c (stateOf (forEachOf f xs c))"
proof (induction xs arbitrary: c)
  case Nil
  show ?case by (simp add: reportsOnly_refl)
next
  case (Cons x xs)
  show ?case
  proof (cases "f c x")
    case (Returned u c1)
    then have "reportsOnly M c c1" using assms[of c x] by simp
    then show ?thesis using Returned Cons.IH[of c1] by (auto intro: reportsOnly_trans)
  next
    case (Thrown e c1)
    then show ?thesis using assms[of c x] by simp
  qed
qed

lemma reportsOnly_checkParameter:
  "reportsOnly identifierMessages c (stateOf (checkParameter c p))"
  unfolding checkParameter_def
  by (rule reportsOnly_andThen) (simp_all add: reportsOnly_checkIdentifier reportsOnly_refl)

lemma identifier_list_messages: "identifierMessages \<subseteq> listMessages"
  by (auto simp: listMessages_def)

lemma reportsOnly_checkIdentifier':
  "reportsOnly listMessages c (stateOf (checkIdentifier c n))"
  by (rule reportsOnly_mono[OF reportsOnly_checkIdentifier identifier_list_messages])

lemma reportsOnly_checkGrammarParameterList:
  "reportsOnly listMessages c (snd (checkGrammarParameterList c l))"
  by (simp add: checkGrammarParameterList_def listMessages_def identifierMessages_def
      reportsOnly_refl reportsOnly_reportGrammarError reportsOnly_reportGrammarErrorForNode
      split: option.split)

lemma reportsOnly_checkParameterList:
  "reportsOnly listMessages c (stateOf (checkParameterList c l))"
proof -
  have i: "reportsOnly listMessages a (stateOf (checkParameter a p))" for a p
    by (rule reportsOnly_mono[OF reportsOnly_checkParameter identifier_list_messages])
  have "reportsOnly listMessages (snd (checkGrammarParameterList c l))
           (stateOf (checkParameterList c l))"
    by (simp add: checkParameterList_def Let_def reportsOnly_refl reportsOnly_forEachOf[OF i]
        split: option.split)
  with reportsOnly_checkGrammarParameterList show ?thesis by (rule reportsOnly_trans)
qed






lemma entryOn_cong: "currentFile (diagnostics a) = currentFile (diagnostics b) \<Longrightarrow> entryOn a = entryOn b"
  by (intro ext) (simp add: entryOn_def)

lemma appended_simps [simp]:
  "entries (diagnostics (appended c es)) = entries (diagnostics c) @ es"
  "currentFile (diagnostics (appended c es)) = currentFile (diagnostics c)"
  "bindings (appended c es) = bindings c"
  "appended (appended c es) fs = appended c (es @ fs)"
  "appended c [] = c"
  by (simp_all add: appended_def)

lemma entryOn_appended [simp]: "entryOn (appended c es) = entryOn c"
  by (rule entryOn_cong) simp


subsection \<open>Strict check of a production\<close>

lemma dom_parametersByName_fold:
  "dom (fold (\<lambda>parameter names.
             case identifierText (parameterName parameter) of
               Some parameterNameText \<Rightarrow>
                 if parameterNameText \<noteq> [] \<and> names parameterNameText = None
                 then names(parameterNameText \<mapsto> True) else names
             | None \<Rightarrow> names) ps m)
     = dom m \<union> set (filter (\<lambda>t. t \<noteq> [])
                       (List.map_filter (\<lambda>p. identifierText (parameterName p)) ps))"
proof (induction ps arbitrary: m)
  case Nil
  show ?case by (simp add: List.map_filter_simps)
next
  case (Cons p ps)
  show ?case
    by (cases "identifierText (parameterName p)")
       (auto simp: Cons.IH List.map_filter_simps domIff)
qed

lemma dom_parametersByName: "dom (parametersByName (parametersOf node)) = parameterNames node"
  by (simp add: parametersByName_def parameterNames_def dom_parametersByName_fold)

lemma reportMissingParameters_entries:
  "reportMissingParameters c reportAt t names ps =
     c\<lparr>diagnostics := (diagnostics c)\<lparr>entries := entries (diagnostics c) @
        map (\<lambda>p. entryOn c reportAt
               Production_0_is_missing_parameter_1_All_definitions_of_production_0_must_specify_the_same_formal_parameters
               [TextArgument t, TextArgument (identifierText (parameterName p))])
            (filter (\<lambda>p. propertyKey (identifierText (parameterName p)) \<notin> dom names) ps)\<rparr>\<rparr>"
proof -
  have "fold (\<lambda>parameter c.
             if names (propertyKey (identifierText (parameterName parameter))) = None
             then diagnostics_reportNode c reportAt m
                    [TextArgument t, TextArgument (identifierText (parameterName parameter))]
             else c) ps c
        = c\<lparr>diagnostics := (diagnostics c)\<lparr>entries := entries (diagnostics c) @
            map (\<lambda>p. entryOn c reportAt m [TextArgument t, TextArgument (identifierText (parameterName p))])
              (filter (\<lambda>p. propertyKey (identifierText (parameterName p)) \<notin> dom names) ps)\<rparr>\<rparr>"
    for m
  proof (induction ps arbitrary: c)
    case Nil
    show ?case by simp
  next
    case (Cons p ps)
    have e: "entryOn (diagnostics_reportNode c reportAt m args) = entryOn c" for args
      by (rule entryOn_cong) (simp add: diagnostics_reportNode_def reportNode_def)
    show ?case
      by (simp add: Cons.IH e domIff)
         (simp add: diagnostics_reportNode_def reportNode_def entryOn_def)
  qed
  then show ?thesis by (simp add: reportMissingParameters_def)
qed

lemma getProductionParametersByName_Returned:
  assumes "getProductionParametersByName c node = Returned names c'"
    and "memoAgrees c node"
  shows "dom names = parameterNames node"
    and "diagnostics c' = diagnostics c"
    and "\<And>other. nodeId other \<noteq> nodeId node \<Longrightarrow> memoAgrees c other \<Longrightarrow> memoAgrees c' other"
proof -
  obtain memo where memo: "productionParametersByName c = Some memo"
    using assms(1) by (cases "productionParametersByName c")
      (simp_all add: getProductionParametersByName_def)
  show "dom names = parameterNames node" "diagnostics c' = diagnostics c"
    "\<And>other. nodeId other \<noteq> nodeId node \<Longrightarrow> memoAgrees c other \<Longrightarrow> memoAgrees c' other"
  proof (atomize (full), cases "memo (nodeId node)")
    case None
    then have "names = parametersByName (parametersOf node)"
      and "c' = c\<lparr>productionParametersByName := Some (memo(nodeId node \<mapsto> names))\<rparr>"
      using assms(1) memo by (auto simp: getProductionParametersByName_def Let_def)
    then show "dom names = parameterNames node \<and> diagnostics c' = diagnostics c
        \<and> (\<forall>other. nodeId other \<noteq> nodeId node \<longrightarrow> memoAgrees c other \<longrightarrow> memoAgrees c' other)"
      using memo by (simp add: dom_parametersByName memoAgrees_def)
  next
    case (Some ns)
    then have "names = ns" and "c' = c"
      using assms(1) memo by (simp_all add: getProductionParametersByName_def)
    then show "dom names = parameterNames node \<and> diagnostics c' = diagnostics c
        \<and> (\<forall>other. nodeId other \<noteq> nodeId node \<longrightarrow> memoAgrees c other \<longrightarrow> memoAgrees c' other)"
      using memo Some assms(2) by (simp add: memoAgrees_def)
  qed
qed


lemma filter_reportsOnly:
  assumes "reportsOnly M c c'" and "\<And>e. entryMessage e \<in> M \<Longrightarrow> \<not> P e"
  shows "filter P (entries (diagnostics c')) = filter P (entries (diagnostics c))"
proof -
  have "filter P (reportsOf (\<lambda>c. c') c) = []"
    using reportsOnly_entries(2)[OF assms(1)] assms(2) by (auto simp: filter_empty_conv)
  then show ?thesis using reportsOnly_entries(1)[OF assms(1)] by simp
qed

lemma listMessages_not_missing: "entryMessage e \<in> listMessages \<Longrightarrow> \<not> isMissingParameter e"
  by (auto simp: listMessages_def identifierMessages_def isMissingParameter_def)

text \<open>
  C1, as the code has it. Let C be the canonical declaration of the production that
  D declares, with the memo agreeing with both, and let the strict check of D return.
  If C is D, the check reports no missing-parameter diagnostic. Otherwise it reports,
  after what was in the sink, one missing-parameter diagnostic on the name of D for
  each parameter of C, in order, whose name, taken as a dictionary key, is not among
  the parameter names of D, then one on C for each parameter of D whose name, taken as
  a dictionary key, is not among those of C: one for each entry of the list, so a name
  that a list holds twice is reported twice. The parameter names of a declaration are
  the names of its parameters that are not empty. As a dictionary key a missing name
  is \<^verbatim>\<open>undefined\<close>: a parameter without a name is reported unless the other
  declaration has a parameter of the name \<open>undefined\<close>. A parameter with an empty name
  is always reported.
\<close>

theorem checkProductionStrict_missing_parameters:
  assumes ret: "checkProductionStrict c D = Returned u c'"
    and canonical: "canonicalDeclaration c D = Some C"
    and memoD: "memoAgrees c D" and memoC: "memoAgrees c C"
  shows "filter isMissingParameter (entries (diagnostics c'))
           = filter isMissingParameter (entries (diagnostics c))
             @ (if nodeId C = nodeId D then []
                else map (missingParameter c D (nodeId (productionName D)))
                       (filter (\<lambda>p. propertyKey (identifierText (parameterName p))
                                       \<notin> parameterNames D) (parametersOf C))
                   @ map (missingParameter c D (nodeId C))
                       (filter (\<lambda>p. propertyKey (identifierText (parameterName p))
                                       \<notin> parameterNames C) (parametersOf D)))"
proof -
  obtain s c1 where ident: "checkIdentifier c (productionName D) = Returned s c1"
    using canonical by (cases "checkIdentifier c (productionName D)")
      (simp_all add: canonicalDeclaration_def)
  obtain rest where decl: "getDeclarations (bindings c1) s = C # rest"
    using canonical ident by (cases "getDeclarations (bindings c1) s")
      (simp_all add: canonicalDeclaration_def)
  have r1: "reportsOnly listMessages c c1"
    using reportsOnly_checkIdentifier'[of c "productionName D"] ident by simp
  define plist where "plist = (if length (parametersOf D) \<noteq> 0
                   then (case parameterList D of
                           Some l \<Rightarrow> checkParameterList c1 l
                         | None \<Rightarrow> Returned () c1)
                   else Returned () c1)"
  have r2: "reportsOnly listMessages c1 (stateOf plist)"
    by (simp add: plist_def reportsOnly_refl reportsOnly_checkParameterList split: option.split)
  define rest_of where "rest_of = (\<lambda>c2.
            if nodeId C = nodeId D then Returned () c2
            else if sourceFile c2 = None then Thrown TypeError c2
            else
              andThen (getProductionParametersByName c2 D)
                (\<lambda>thisProductionParameterNames c.
                       andThen (getProductionParametersByName c C)
                         (\<lambda>firstProductionParameterNames c.
                            Returned ()
                              (reportMissingParameters
                                 (reportMissingParameters c (nodeId (productionName D))
                                    (identifierText (productionName D))
                                    thisProductionParameterNames (parametersOf C))
                                 (nodeId C) (identifierText (productionName D))
                                 firstProductionParameterNames (parametersOf D)))))"
  have eq: "checkProductionStrict c D = andThen plist (\<lambda>u. rest_of)"
    unfolding checkProductionStrict_def ident andThen.simps Let_def decl list.case
      plist_def rest_of_def
    by (rule arg_cong[where f = "andThen _"]) (simp add: fun_eq_iff)
  from ret obtain c2 where plist: "plist = Returned () c2" and tail: "rest_of c2 = Returned u c'"
    unfolding eq by (cases plist) simp_all
  have r02: "reportsOnly listMessages c c2"
    using r1 r2 plist by (auto intro: reportsOnly_trans)
  have f2: "filter isMissingParameter (entries (diagnostics c2))
              = filter isMissingParameter (entries (diagnostics c))"
    by (rule filter_reportsOnly[OF r02 listMessages_not_missing])
  show ?thesis
  proof (cases "nodeId C = nodeId D")
    case True
    then have "c' = c2" using tail by (simp add: rest_of_def)
    then show ?thesis using True f2 by simp
  next
    case False
    have m2: "memoAgrees c2 D" "memoAgrees c2 C"
      using r02 memoD memoC by (simp_all add: reportsOnly_def memoAgrees_def)
    from tail False obtain thisNames c3 where
      g1: "getProductionParametersByName c2 D = Returned thisNames c3"
      and tail2: "andThen (getProductionParametersByName c3 C)
                         (\<lambda>firstProductionParameterNames c.
                            Returned ()
                              (reportMissingParameters
                                 (reportMissingParameters c (nodeId (productionName D))
                                    (identifierText (productionName D))
                                    thisNames (parametersOf C))
                                 (nodeId C) (identifierText (productionName D))
                                 firstProductionParameterNames (parametersOf D))) = Returned u c'"
      unfolding rest_of_def
      by (cases "getProductionParametersByName c2 D") (simp_all split: if_splits)
    from tail2 obtain firstNames c4 where
      g2: "getProductionParametersByName c3 C = Returned firstNames c4"
      and c': "c' = reportMissingParameters
                     (reportMissingParameters c4 (nodeId (productionName D))
                        (identifierText (productionName D)) thisNames (parametersOf C))
                     (nodeId C) (identifierText (productionName D)) firstNames (parametersOf D)"
      by (cases "getProductionParametersByName c3 C") auto
    note k1 = getProductionParametersByName_Returned[OF g1 m2(1)]
    have m3: "memoAgrees c3 C" using k1(3)[OF False m2(2)] .
    note k2 = getProductionParametersByName_Returned[OF g2 m3]
    have d4: "diagnostics c4 = diagnostics c2" using k1(2) k2(2) by simp
    have cur: "currentFile (diagnostics c2) = currentFile (diagnostics c)"
      using r02 by (simp add: reportsOnly_def)
    have on: "entryOn (reportMissingParameters c4 a b n ps) = entryOn c" for a b n ps
      by (rule entryOn_cong) (simp add: reportMissingParameters_entries d4 cur)
    have on4: "entryOn c4 = entryOn c"
      by (rule entryOn_cong) (simp add: d4 cur)
    have "entries (diagnostics c') = entries (diagnostics c2)
        @ map (missingParameter c D (nodeId (productionName D)))
            (filter (\<lambda>p. propertyKey (identifierText (parameterName p)) \<notin> parameterNames D)
               (parametersOf C))
        @ map (missingParameter c D (nodeId C))
            (filter (\<lambda>p. propertyKey (identifierText (parameterName p)) \<notin> parameterNames C)
               (parametersOf D))"
      unfolding c' reportMissingParameters_entries[of "reportMissingParameters c4 a b n ps" for a b n ps]
        on
      by (simp add: reportMissingParameters_entries on4 d4 k1(1) k2(1) missingParameter_def)
    then show ?thesis
      using False f2
      by (simp add: filter_id_conv[THEN iffD2] missingParameter_def entryOn_def isMissingParameter_def)
  qed
qed

text \<open>
  C1 as stated fails: with the canonical declaration \<^verbatim>\<open>P[x, x]\<close> and a second
  declaration \<^verbatim>\<open>P\<close>, the one name \<open>x\<close> of the canonical parameter list that the
  second lacks is reported twice on the second declaration.
\<close>

theorem checkProductionStrict_reports_a_name_twice:
  "canonicalDeclaration (checkerIn bindingsP fileP) secondP = Some canonicalP
   \<and> nodeId canonicalP \<noteq> nodeId secondP
   \<and> parameterNames canonicalP = {''x''} \<and> parameterNames secondP = {}
   \<and> filter isMissingParameter
        (entries (diagnostics (stateOf (checkProductionStrict (checkerIn bindingsP fileP) secondP))))
       = [missingParameter (checkerIn bindingsP fileP) secondP (nodeId (productionName secondP))
            (mkParameter 65 (mkIdentifier 66 ''x'' 2 3)),
          missingParameter (checkerIn bindingsP fileP) secondP (nodeId (productionName secondP))
            (mkParameter 67 (mkIdentifier 68 ''x'' 5 6))]
   \<and> entryArguments (missingParameter (checkerIn bindingsP fileP) secondP
          (nodeId (productionName secondP)) (mkParameter 65 (mkIdentifier 66 ''x'' 2 3)))
       = [TextArgument (Some ''P''), TextArgument (Some ''x'')]
   \<and> entryArguments (missingParameter (checkerIn bindingsP fileP) secondP
          (nodeId (productionName secondP)) (mkParameter 67 (mkIdentifier 68 ''x'' 5 6)))
       = [TextArgument (Some ''P''), TextArgument (Some ''x'')]"
  by (simp add: canonicalDeclaration_def parameterNames_def isMissingParameter_def
      missingParameter_def entryOn_def List.map_filter_simps
      checker_defs sample_defs SyntaxKind_defs Let_def)

text \<open>
  The second declaration \<^verbatim>\<open>T[b, c, undefined]\<close> against the canonical \<^verbatim>\<open>T[a, b, ]\<close>:
  \<open>a\<close> is reported on the second declaration and \<open>c\<close> and \<open>undefined\<close> on the canonical
  one; the parameter without a name is not reported, its key being \<^verbatim>\<open>undefined\<close>.
\<close>

lemma secondT_returns:
  "checkProductionStrict (checkerIn bindingsT fileT) secondT
     = Returned () (stateOf (checkProductionStrict (checkerIn bindingsT fileT) secondT))"
  by (simp add: checker_defs sample_defs SyntaxKind_defs Let_def)

lemma secondT_canonical: "canonicalDeclaration (checkerIn bindingsT fileT) secondT = Some canonicalT"
  by (simp add: canonicalDeclaration_def checker_defs sample_defs SyntaxKind_defs Let_def)

lemma secondT_memo:
  "memoAgrees (checkerIn bindingsT fileT) secondT" "memoAgrees (checkerIn bindingsT fileT) canonicalT"
  by (simp_all add: memoAgrees_def checkerIn_def newChecker_def)

theorem checkProductionStrict_missing_parameters_witness:
  "checkProductionStrict (checkerIn bindingsT fileT) secondT
     = Returned () (stateOf (checkProductionStrict (checkerIn bindingsT fileT) secondT))
   \<and> canonicalDeclaration (checkerIn bindingsT fileT) secondT = Some canonicalT
   \<and> memoAgrees (checkerIn bindingsT fileT) secondT
   \<and> memoAgrees (checkerIn bindingsT fileT) canonicalT
   \<and> map (identifierText \<circ> parameterName) (parametersOf canonicalT) = [Some ''a'', Some ''b'', None]
   \<and> map (identifierText \<circ> parameterName) (parametersOf secondT)
       = [Some ''b'', Some ''c'', Some ''undefined'']
   \<and> map (\<lambda>e. (entryLocation e, entryArguments e))
        (filter isMissingParameter
           (entries (diagnostics (stateOf (checkProductionStrict (checkerIn bindingsT fileT) secondT)))))
       = [(AtNode 131, [TextArgument (Some ''T''), TextArgument (Some ''a'')]),
          (AtNode 110, [TextArgument (Some ''T''), TextArgument (Some ''c'')]),
          (AtNode 110, [TextArgument (Some ''T''), TextArgument (Some ''undefined'')])]"
  using checkProductionStrict_missing_parameters[OF secondT_returns secondT_canonical secondT_memo]
    secondT_returns secondT_canonical secondT_memo
  by (simp add: parameterNames_def missingParameter_def entryOn_def List.map_filter_simps
      parametersOf_def propertyKey_def sample_defs)
subsection \<open>Strict check of a nonterminal\<close>











subsection \<open>Link ids of right-hand sides\<close>

lemmas digest_defs =
  computeHash_def newRightHandSideDigest_def writeString_def writeToken_def writeTokenNode_def
  writeIdentifier_def writeTerminal_def writeUnicodeCharacterLiteral_def writeArgument_def
  writeArgumentList_def writeNonterminal_def writeUnicodeCharacterRange_def
  getRightHandSideLinkId_def getProductionLinkId_def toLowerCase_def inClass_def

text \<open>
  C5. A right-hand side whose link reference has the text \<^verbatim>\<open>My Label\<close> gets the link id
  \<^verbatim>\<open>-y-abel\<close>, whatever its head is: the class \<^verbatim>\<open>[^a-z0-9]\<close> also matches the capital
  letters, so \<^verbatim>\<open>M\<close> is replaced, and the run of the space and \<^verbatim>\<open>L\<close> is replaced by one
  separator. The id is not \<^verbatim>\<open>My-Label\<close>. With the prefix, it is the link id of the
  production, a separator, and \<^verbatim>\<open>-y-abel\<close>.
\<close>

theorem getRightHandSideLinkId_My_Label:
  assumes "reference node = Some r" and "referenceText r = Some ''My Label''"
  shows "getRightHandSideLinkId env bt node False = Inr ''-y-abel''
         \<and> getRightHandSideLinkId env bt node False \<noteq> Inr ''My-Label''
         \<and> (getAncestor bt (nodeId node) Production = Some (ProductionRef production)
              \<longrightarrow> getRightHandSideLinkId env bt node True
                    = Inr (propertyKey (getProductionLinkId bt (productionName production))
                             @ ''--y-abel''))"
  using assms
  by (simp add: getRightHandSideLinkId_def truthy_def propertyKey_def inClass_def)

theorem getRightHandSideLinkId_My_Label_witness:
  "getRightHandSideLinkId sampleEnv bindingsR labelledR False = Inr ''-y-abel''
   \<and> getRightHandSideLinkId sampleEnv bindingsR labelledR True = Inr ''R--y-abel''"
  using getRightHandSideLinkId_My_Label[of labelledR
      "\<lparr>nodeId = 105, pos = 15, endPos = 24, referenceText = Some ''My Label''\<rparr>"
      sampleEnv bindingsR productionR]
  by (simp add: digest_defs checker_defs sample_defs SyntaxKind_defs Let_def)

text \<open>Lower-casing leaves a lower-case hexadecimal string as it is.\<close>

lemma toLowerCase_hex: "set s \<subseteq> hexDigits \<Longrightarrow> toLowerCase s = s"
proof (induction s)
  case Nil
  show ?case by (simp add: toLowerCase_def)
next
  case (Cons ch s)
  then have "ch \<in> hexDigits" by simp
  then have "\<not> (65 \<le> (of_char ch :: nat) \<and> (of_char ch :: nat) \<le> 90)"
    by (auto simp: hexDigits_def)
  then show ?case using Cons by (auto simp: toLowerCase_def)
qed

lemma sampleEnv_sha:
  "\<forall>s. length (sha1Hex sampleEnv s) = 40 \<and> set (sha1Hex sampleEnv s) \<subseteq> hexDigits"
proof -
  have "''0123456789abcdef'' ! (n mod 16) \<in> hexDigits" for n
    unfolding hexDigits_def by (rule nth_mem) simp
  then show ?thesis by (auto simp: sampleEnv_def)
qed

lemma unlabelledR_text:
  "writeNode sampleEnv newRightHandSideDigest (head unlabelledR)
     = Inr \<lparr>spaceRequested = True, writer = [CHR 0x60] @ ''a'' @ [CHR 0x60] @ '' Q[+ z]''\<rparr>"
  by (simp add: digest_defs checker_defs sample_defs SyntaxKind_defs Let_def)

lemma unlabelledR_hash:
  "computeHash sampleEnv newRightHandSideDigest unlabelledR
     = Inr (''aaaaaaaa'',
            \<lparr>spaceRequested = True, writer = [CHR 0x60] @ ''a'' @ [CHR 0x60] @ '' Q[+ z]''\<rparr>)"
proof -
  have r: "replicate 8 CHR ''a'' = ''aaaaaaaa''" by (simp add: eval_nat_numeral)
  show ?thesis
    using unlabelledR_text
    by (simp add: computeHash_def newRightHandSideDigest_def sampleEnv_def r)
qed

text \<open>
  C6. With a hash function that gives forty lower-case hexadecimal digits, when
  \<^verbatim>\<open>computeHash\<close> on a new digest returns for a right-hand side, the text it hashed is the
  serialization of the head, and the result is the first eight characters of the
  hexadecimal digest of that text: eight lower-case hexadecimal digits. It is the link id
  of a right-hand side without a label, and every right-hand side with the same head gets
  the same result.
\<close>

theorem computeHash_prefix_of_digest:
  assumes sha: "\<forall>s. length (sha1Hex env s) = 40 \<and> set (sha1Hex env s) \<subseteq> hexDigits"
    and hash: "computeHash env newRightHandSideDigest node = Inr (h, d)"
  shows "writeNode env newRightHandSideDigest (head node) = Inr d
         \<and> h = take 8 (sha1Hex env (writer d))
         \<and> length h = 8 \<and> set h \<subseteq> hexDigits
         \<and> (reference node = None \<longrightarrow> getRightHandSideLinkId env bt node False = Inr h)
         \<and> (head other = head node
              \<longrightarrow> computeHash env newRightHandSideDigest other = Inr (h, d))"
proof -
  have w: "writeNode env newRightHandSideDigest (head node) = Inr d"
    and h: "h = take 8 (sha1Hex env (writer d))"
    using hash by (auto simp: computeHash_def newRightHandSideDigest_def split: sum.splits)
  have len: "length h = 8" using sha h by simp
  have hex: "set h \<subseteq> hexDigits"
    using sha h set_take_subset[of 8 "sha1Hex env (writer d)"] by blast
  have low: "toLowerCase h = h" by (rule toLowerCase_hex[OF hex])
  have link: "getRightHandSideLinkId env bt node False = Inr h" if "reference node = None"
    using that hash low by (simp add: getRightHandSideLinkId_def)
  have same: "computeHash env newRightHandSideDigest other = Inr (h, d)" if "head other = head node"
    using that hash by (simp add: computeHash_def)
  show ?thesis using w h len hex link same by blast
qed

theorem computeHash_prefix_of_digest_witness:
  "computeHash sampleEnv newRightHandSideDigest unlabelledR
     = Inr (''aaaaaaaa'',
            \<lparr>spaceRequested = True, writer = [CHR 0x60] @ ''a'' @ [CHR 0x60] @ '' Q[+ z]''\<rparr>)
   \<and> ''aaaaaaaa''
       = take 8 (sha1Hex sampleEnv ([CHR 0x60] @ ''a'' @ [CHR 0x60] @ '' Q[+ z]''))
   \<and> getRightHandSideLinkId sampleEnv bindingsR unlabelledR False = Inr ''aaaaaaaa''
   \<and> head labelledR = head unlabelledR
   \<and> computeHash sampleEnv newRightHandSideDigest labelledR
       = Inr (''aaaaaaaa'',
              \<lparr>spaceRequested = True, writer = [CHR 0x60] @ ''a'' @ [CHR 0x60] @ '' Q[+ z]''\<rparr>)"
  using computeHash_prefix_of_digest[OF sampleEnv_sha unlabelledR_hash, of bindingsR labelledR]
    unlabelledR_hash
  by (simp add: unlabelledR_def labelledR_def)

end
